theory Spec2Isabelle
  imports Complex_Main
begin

section \<open>The viewer page: selection state of ModelViewerPage (page.tsx)\<close>

text \<open>
  The page component keeps the interactive state in React state cells and forwards every
  change to the 3D component through the operation table of \<open>Viewer3DRef\<close>. The
  handlers are modelled as functions from the page state to the new page state together
  with the list of operation-table calls they issue, in order. A call is issued only when
  \<open>viewerRef.current\<close> is set.
\<close>

datatype display_mode = Wireframe | Solid | Shaded

record element =
  category :: string
  family :: "string option"
  etype :: "string option"

record viewer_metadata =
  elements :: "(string \<rightharpoonup> element) option"

record mouse_event =
  ctrlKey :: bool
  metaKey :: bool

datatype viewer_call =
    SelectElements "string list"
  | HideElements "string list"
  | ShowElements "string list"
  | IsolateElements "string list option"
  | SetXrayMode bool
  | SetDisplayMode display_mode
  | FitToView

record page_state =
  metadata :: "viewer_metadata option"
  selectedElementId :: "string option"
  selectedElementIds :: "string list"
  hiddenElementIds :: "string list"
  isolatedElementIds :: "string list option"
  xrayMode :: bool
  displayMode :: display_mode
  viewerRefCurrent :: bool

text \<open>\<open>if (viewerRef.current) viewerRef.current.op(...)\<close>\<close>

definition callViewer :: "page_state \<Rightarrow> viewer_call \<Rightarrow> viewer_call list" where
  "callViewer p c = (if viewerRefCurrent p then [c] else [])"

text \<open>\<open>event?.ctrlKey || event?.metaKey\<close>\<close>

definition isCtrlPressed :: "mouse_event option \<Rightarrow> bool" where
  "isCtrlPressed ev = (case ev of None \<Rightarrow> False | Some e \<Rightarrow> ctrlKey e \<or> metaKey e)"

text \<open>
  A property read \<open>obj[key]\<close> on a plain object resolves the object's own keys and,
  for a key it does not own, the members every plain object inherits from
  \<open>Object.prototype\<close>. Each of these holds a function or an object, so the value read
  under such a name is truthy. \<open>Object.keys\<close> and \<open>Object.values\<close> enumerate own keys
  only.
\<close>

definition objectPrototypeMembers :: "string list" where
  "objectPrototypeMembers =
     [''constructor'', ''hasOwnProperty'', ''isPrototypeOf'', ''propertyIsEnumerable'',
      ''toLocaleString'', ''toString'', ''valueOf'', ''__proto__'',
      ''__defineGetter__'', ''__defineSetter__'', ''__lookupGetter__'', ''__lookupSetter__'']"

text \<open>
  \<open>metadata && metadata.elements && !metadata.elements[elementId]\<close>: the guard that
  rejects an id missing from a loaded metadata index. The index is an object parsed from
  JSON, so the read is falsy only for an id that is neither a key of the index nor the
  name of an inherited member.
\<close>

definition missingFromMetadata :: "page_state \<Rightarrow> string \<Rightarrow> bool" where
  "missingFromMetadata p elementId =
     (case metadata p of
        None \<Rightarrow> False
      | Some m \<Rightarrow>
          (case elements m of
             None \<Rightarrow> False
           | Some els \<Rightarrow>
               els elementId = None \<and> elementId \<notin> set objectPrototypeMembers))"

definition handleElementSelect ::
  "string \<Rightarrow> mouse_event option \<Rightarrow> page_state \<Rightarrow> page_state \<times> viewer_call list" where
  "handleElementSelect elementId ev p =
     (if elementId = [] then
        (p\<lparr>selectedElementId := None, selectedElementIds := []\<rparr>,
         callViewer p (SelectElements []))
      else if missingFromMetadata p elementId then (p, [])
      else if isCtrlPressed ev then
        (let prev = selectedElementIds p in
         if elementId \<in> set prev then
           (let newSelection = filter (\<lambda>i. i \<noteq> elementId) prev in
            (p\<lparr>selectedElementId :=
                  (if length newSelection > 0 then Some (hd newSelection) else None),
               selectedElementIds := newSelection\<rparr>,
             callViewer p (SelectElements newSelection)))
         else
           (let newSelection = prev @ [elementId] in
            (p\<lparr>selectedElementId := Some elementId,
               selectedElementIds := newSelection\<rparr>,
             callViewer p (SelectElements newSelection))))
      else
        (p\<lparr>selectedElementId := Some elementId, selectedElementIds := [elementId]\<rparr>,
         callViewer p (SelectElements [elementId])))"

definition handleDeselectAll :: "page_state \<Rightarrow> page_state \<times> viewer_call list" where
  "handleDeselectAll p =
     (p\<lparr>selectedElementId := None, selectedElementIds := []\<rparr>,
      callViewer p (SelectElements []))"

section \<open>The rendering-engine surface\<close>

text \<open>
  The 3D engine is an external library; the component reaches it through untyped
  (\<open>any\<close>) objects and probes which members a build exposes before using them. The
  engine is modelled as a store of entities addressed by reference. Every entity carries
  the capability surface the code probes (which members exist, and whether a member is a
  function or a property) and the state behind these members:

  \<^item> \<open>colorize\<close> is the colour override of the entity. \<open>entity.colorize\<close> as a
    property reads and writes it, \<open>entity.colorize(c)\<close> as a function writes it,
    \<open>entity._colorize\<close> reads it, and \<open>scene.setObjectsColorized\<close> writes it.
  \<^item> \<open>material_colorize\<close> is the state behind \<open>entity.material.colorize\<close>, read and
    written as a property, written when the member is a function.
  \<^item> \<open>entity.material.color\<close>, when present, is a mutable object owned by the entity: a
    plain array, a typed array (\<open>Float32Array\<close>) or a colour object of the engine. Its
    components are \<open>color_comps\<close>. The component never assigns this member; it writes
    into the object (\<open>setRGB\<close>, \<open>copy\<close>, \<open>set\<close>, index writes).
  \<^item> \<open>visible\<close>, \<open>selected\<close> and \<open>highlighted\<close> are the render flags; all members a
    build exposes for visibility read and write the one flag.

  A colour value is \<open>null\<close>, a plain array, a \<open>Float32Array\<close>, another object (a member
  that is a function reads as the function object), or a reference \<open>CLive a\<close> to the
  live \<open>material.color\<close> object of the entity at address \<open>a\<close>. Arrays other than
  \<open>material.color\<close> objects are never written into by the component, so they are
  carried by value; a \<open>CLive\<close> reference is dereferenced in the store at the moment it is
  used, so that a write into the object is seen by everyone holding the reference.
  Number components are finite doubles, carried as the reals they denote. Engine calls
  are taken not to throw, so the \<open>try\<close> blocks around them have no \<open>catch\<close> branch
  here; \<open>scene.update()\<close> and \<open>scene.render()\<close> redraw and change nothing of this
  state; counters and log lines are left out.
\<close>

type_synonym addr = nat

datatype cval = CNull | CArr "real list" | CF32 "real list" | COther nat | CLive addr

datatype member_kind = MAbsent | MFunction | MProperty

datatype color_kind = PlainArray | TypedArray | ColorObject

record entity =
  ent_id :: string
  ent_entityId :: "string option"
  colorize_member :: member_kind
  has_private_colorize :: bool
  has_highlighted :: bool
  has_highlight :: bool
  has_material :: bool
  material_colorize_member :: member_kind
  has_material_color :: bool
  color_kind :: color_kind
  color_has_setRGB :: bool
  color_has_copy :: bool
  color_has_set :: bool
  has_visible :: bool
  has_setVisible :: bool
  has_culled :: bool
  has_setCulled :: bool
  visible :: bool
  selected :: bool
  colorize :: cval
  material_colorize :: cval
  color_comps :: "real list"
  highlighted :: bool

text \<open>
  \<open>scene.objects\<close> is the keyed registry of live objects, given as the list of its
  own entries in the order \<open>Object.keys\<close> enumerates them; \<open>inheritedObject\<close> gives the
  reference held by each member the registry inherits from \<open>Object.prototype\<close>.
  \<open>scene.setObjectsSelected\<close> is called without a guard wherever it is used and is
  taken as always present; the other scene-level batch mutators are probed with
  \<open>typeof\<close> and are capabilities.
\<close>

record scene =
  objects :: "(string \<times> addr) list"
  inheritedObject :: "string \<Rightarrow> addr"
  has_setObjectsVisible :: bool
  has_setObjectsColorized :: bool
  has_setObjectsHighlighted :: bool

record model =
  model_id :: string
  model_objects :: "(string \<times> addr) list option"
  model_has_setObjectsVisible :: bool

text \<open>
  The mutable cells of the component: \<open>viewerRef.current\<close> (represented by its scene),
  \<open>modelRef.current\<close>, the entity store, \<open>previouslySelectedEntitiesRef.current\<close> and
  \<open>originalColorsRef.current\<close>. The key of the colour map is \<open>entity.id || entity.entityId\<close>,
  where \<open>None\<close> stands for \<open>undefined\<close>; an object without an \<open>id\<close> has the empty id,
  which \<open>||\<close> treats alike.
\<close>

record vstate =
  viewerRef :: "scene option"
  modelRef :: "model option"
  heap :: "addr \<Rightarrow> entity"
  previouslySelectedEntities :: "addr list"
  originalColors :: "string option \<rightharpoonup> cval"

datatype js_error = TypeError

text \<open>\<open>list.forEach(e => ...)\<close> over entity references, mutating each entity in place.\<close>

definition forEachEntity :: "(entity \<Rightarrow> entity) \<Rightarrow> addr list \<Rightarrow> (addr \<Rightarrow> entity) \<Rightarrow> (addr \<Rightarrow> entity)" where
  "forEachEntity f as h = fold (\<lambda>a h'. h'(a := f (h' a))) as h"

text \<open>
  Modelled from the spec: the scene-level and model-level batch mutators of the external
  engine (section 6 of the specification: a batch mutator for visibility, colorization
  and the selection flag each). A mutator sets the one flag, or the colour override, of
  every listed object; the component passes it the entity references it holds.
\<close>

definition setObjectsVisible :: "addr list \<Rightarrow> bool \<Rightarrow> (addr \<Rightarrow> entity) \<Rightarrow> (addr \<Rightarrow> entity)" where
  "setObjectsVisible as b h = forEachEntity (\<lambda>e. e\<lparr>visible := b\<rparr>) as h"

definition setObjectsSelected :: "addr list \<Rightarrow> bool \<Rightarrow> (addr \<Rightarrow> entity) \<Rightarrow> (addr \<Rightarrow> entity)" where
  "setObjectsSelected as b h = forEachEntity (\<lambda>e. e\<lparr>selected := b\<rparr>) as h"

definition setObjectsColorized :: "addr list \<Rightarrow> cval \<Rightarrow> (addr \<Rightarrow> entity) \<Rightarrow> (addr \<Rightarrow> entity)" where
  "setObjectsColorized as c h = forEachEntity (\<lambda>e. e\<lparr>colorize := c\<rparr>) as h"

definition setObjectsHighlighted :: "addr list \<Rightarrow> bool \<Rightarrow> (addr \<Rightarrow> entity) \<Rightarrow> (addr \<Rightarrow> entity)" where
  "setObjectsHighlighted as b h = forEachEntity (\<lambda>e. e\<lparr>highlighted := b\<rparr>) as h"

text \<open>
  \<open>Object.values(scene.objects)\<close>, and the values of \<open>scene.selectedObjects\<close>: the
  live objects whose selection flag is set.
\<close>

definition allObjects :: "scene \<Rightarrow> addr list" where
  "allObjects sc = map snd (objects sc)"

definition selectedArray :: "scene \<Rightarrow> (addr \<Rightarrow> entity) \<Rightarrow> addr list" where
  "selectedArray sc h = filter (\<lambda>a. selected (h a)) (allObjects sc)"

section \<open>Viewer3D: colour probing and restoring\<close>

text \<open>
  JavaScript numbers are IEEE doubles. A finite double is carried as the real it
  denotes; \<open>toDouble\<close> gives the double nearest to a real (round to nearest, ties to
  even, on a significand of 53 bits, with gradual underflow below \<open>2^-1022\<close>), which is
  the value of a decimal literal and the result of an arithmetic operation on doubles.
  Reals beyond the largest double, and the values \<open>NaN\<close> and \<open>Infinity\<close>, are not
  modelled. \<open>scaleUp\<close> doubles a positive real until it is at least \<open>2^52\<close>, at most
  1074 times; \<open>scaleDown\<close> halves it until it is below \<open>2^53\<close>.
\<close>

definition roundHalfEven :: "real \<Rightarrow> int" where
  "roundHalfEven q =
     (let f = \<lfloor>q\<rfloor> in
      if q - of_int f < 1 / 2 then f
      else if q - of_int f > 1 / 2 then f + 1
      else if even f then f else f + 1)"

function scaleUp :: "nat \<Rightarrow> real \<Rightarrow> nat \<times> real" where
  "scaleUp n x =
     (if x \<ge> 4503599627370496 \<or> n \<ge> 1074 then (n, x) else scaleUp (Suc n) (2 * x))"
  by pat_completeness auto
termination
  by (relation "measure (\<lambda>(n, x). 1074 - n)") auto

declare scaleUp.simps [simp del]

function scaleDown :: "nat \<Rightarrow> real \<Rightarrow> nat \<times> real" where
  "scaleDown n x =
     (if x < 9007199254740992 \<or> n \<ge> 971 then (n, x) else scaleDown (Suc n) (x / 2))"
  by pat_completeness auto
termination
  by (relation "measure (\<lambda>(n, x). 971 - n)") auto

declare scaleDown.simps [simp del]

definition toDouble :: "real \<Rightarrow> real" where
  "toDouble x =
     (if x = 0 then 0
      else if \<bar>x\<bar> \<ge> 9007199254740992 then
        (case scaleDown 0 \<bar>x\<bar> of (n, y) \<Rightarrow> sgn x * of_int (roundHalfEven y) * 2 ^ n)
      else
        (case scaleUp 0 \<bar>x\<bar> of (n, y) \<Rightarrow> sgn x * of_int (roundHalfEven y) / 2 ^ n))"

text \<open>The highlight colour \<open>[0.23, 0.51, 0.96]\<close> and the tolerance \<open>0.01\<close>.\<close>

definition highlightRed :: real where
  "highlightRed = toDouble (23 / 100)"

definition highlightGreen :: real where
  "highlightGreen = toDouble (51 / 100)"

definition highlightBlue :: real where
  "highlightBlue = toDouble (96 / 100)"

definition tolerance :: real where
  "tolerance = toDouble (1 / 100)"

definition blueColor :: "real list" where
  "blueColor = [highlightRed, highlightGreen, highlightBlue]"

text \<open>
  The tolerance test \<open>Math.abs(c[i] - blueColor[i]) < 0.01\<close> on the first three
  components: the difference of two doubles is rounded to a double, its absolute value
  and the comparison are exact. A missing component makes the JavaScript comparison
  false (\<open>NaN < 0.01\<close>). A component that is a double is its own \<open>toDouble\<close>.
\<close>

definition nearHighlight :: "real \<Rightarrow> real \<Rightarrow> bool" where
  "nearHighlight x c = (\<bar>toDouble (toDouble x - c)\<bar> < tolerance)"

definition isBlueColor :: "real list \<Rightarrow> bool" where
  "isBlueColor c =
     (case c of
        r # g # b # _ \<Rightarrow>
          nearHighlight r highlightRed \<and> nearHighlight g highlightGreen
          \<and> nearHighlight b highlightBlue
      | _ \<Rightarrow> False)"

text \<open>
  \<open>Array.isArray(c)\<close>, \<open>c instanceof Float32Array\<close> and the components \<open>c[0], c[1], ...\<close>
  of a colour value; a reference is looked up in the store.
\<close>

definition isArray :: "(addr \<Rightarrow> entity) \<Rightarrow> cval \<Rightarrow> bool" where
  "isArray h c =
     (case c of
        CArr _ \<Rightarrow> True
      | CLive b \<Rightarrow> color_kind (h b) = PlainArray
      | _ \<Rightarrow> False)"

definition isFloat32Array :: "(addr \<Rightarrow> entity) \<Rightarrow> cval \<Rightarrow> bool" where
  "isFloat32Array h c =
     (case c of
        CF32 _ \<Rightarrow> True
      | CLive b \<Rightarrow> color_kind (h b) = TypedArray
      | _ \<Rightarrow> False)"

definition components :: "(addr \<Rightarrow> entity) \<Rightarrow> cval \<Rightarrow> real list" where
  "components h c =
     (case c of
        CArr xs \<Rightarrow> xs
      | CF32 xs \<Rightarrow> xs
      | CLive b \<Rightarrow> color_comps (h b)
      | _ \<Rightarrow> [])"

text \<open>
  Values read through the material sub-object, and the \<open>typeof ... === 'function'\<close>
  probes on \<open>material.color\<close>. A plain array has none of the three methods; a typed array
  has \<open>set\<close> (of \<open>TypedArray.prototype\<close>) and no other; a colour object has what the
  build gives it.
\<close>

definition materialColorize :: "entity \<Rightarrow> cval" where
  "materialColorize e =
     (case material_colorize_member e of
        MFunction \<Rightarrow> COther 0
      | _ \<Rightarrow> material_colorize e)"

definition materialColorizeTruthy :: "entity \<Rightarrow> bool" where
  "materialColorizeTruthy e =
     (case material_colorize_member e of
        MAbsent \<Rightarrow> False
      | MFunction \<Rightarrow> True
      | MProperty \<Rightarrow> material_colorize e \<noteq> CNull)"

definition colorSetRGB :: "entity \<Rightarrow> bool" where
  "colorSetRGB e = (color_kind e = ColorObject \<and> color_has_setRGB e)"

definition colorCopy :: "entity \<Rightarrow> bool" where
  "colorCopy e = (color_kind e = ColorObject \<and> color_has_copy e)"

definition colorSet :: "entity \<Rightarrow> bool" where
  "colorSet e = (color_kind e = TypedArray \<or> (color_kind e = ColorObject \<and> color_has_set e))"

text \<open>
  Methods 1 to 3 of \<open>getEntityColor\<close>: the ordered probe of the current colour of the
  entity at address \<open>a\<close>. Method 3 returns the \<open>material.color\<close> object itself.
\<close>

definition probeColor :: "addr \<Rightarrow> entity \<Rightarrow> cval" where
  "probeColor a e =
     (let c1 = (case colorize_member e of
                  MAbsent \<Rightarrow> CNull
                | MFunction \<Rightarrow> (if has_private_colorize e then colorize e else CNull)
                | MProperty \<Rightarrow> colorize e);
          c2 = (if c1 = CNull \<and> has_material e \<and> material_colorize_member e \<noteq> MAbsent
                then materialColorize e else c1);
          c3 = (if c2 = CNull \<and> has_material e \<and> has_material_color e
                then CLive a else c2)
      in c3)"

definition getEntityColor :: "(addr \<Rightarrow> entity) \<Rightarrow> addr \<Rightarrow> cval" where
  "getEntityColor h a =
     (let currentColor = probeColor a (h a) in
      if isArray h currentColor \<and> length (components h currentColor) \<ge> 3
         \<and> isBlueColor (components h currentColor)
      then CNull
      else currentColor)"

text \<open>\<open>entity.id || entity.entityId\<close>\<close>

definition entityKey :: "entity \<Rightarrow> string option" where
  "entityKey e = (if ent_id e \<noteq> [] then Some (ent_id e) else ent_entityId e)"

text \<open>
  \<open>restoreEntityColor\<close> on one entity, in its steps; \<open>h\<close> is the store in which the
  colour to restore is looked up. Method 1 writes through \<open>entity.colorize\<close>, as a
  function or as a property.
\<close>

definition restoreViaColorize :: "cval \<Rightarrow> entity \<Rightarrow> entity" where
  "restoreViaColorize c e =
     (if colorize_member e = MFunction then e\<lparr>colorize := c\<rparr>
      else if colorize_member e \<noteq> MAbsent then e\<lparr>colorize := c\<rparr>
      else e)"

text \<open>
  Method 2 writes through the material. \<open>setRGB\<close>, \<open>copy\<close> and \<open>set\<close> of a colour
  object write the components they are given into the object. \<open>set\<close> of a typed array
  takes an array as its first argument: called with numbers it copies nothing, and
  called with \<open>undefined\<close> (the first component of an empty array) it throws, which
  ends \<open>restoreEntityColor\<close> in its \<open>catch\<close> block before the scene-level call.
\<close>

definition restoreViaMaterial :: "(addr \<Rightarrow> entity) \<Rightarrow> cval \<Rightarrow> cval \<Rightarrow> entity \<Rightarrow> entity" where
  "restoreViaMaterial h originalColor colorToRestore e =
     (if has_material e then
        (if materialColorizeTruthy e then
           (if material_colorize_member e = MFunction
            then e\<lparr>material_colorize := colorToRestore\<rparr>
            else e\<lparr>material_colorize := colorToRestore\<rparr>)
         else if has_material_color e then
           (if isArray h colorToRestore \<and> colorSetRGB e
            then e\<lparr>color_comps := take 3 (components h colorToRestore)\<rparr>
            else if colorCopy e
            then e\<lparr>color_comps := components h originalColor\<rparr>
            else if isArray h colorToRestore \<and> colorSet e
            then (if color_kind e = TypedArray then e
                  else e\<lparr>color_comps := take 3 (components h colorToRestore)\<rparr>)
            else e)
         else e)
      else e)"

definition restoreThrows :: "(addr \<Rightarrow> entity) \<Rightarrow> cval \<Rightarrow> entity \<Rightarrow> bool" where
  "restoreThrows h colorToRestore e =
     (has_material e \<and> \<not> materialColorizeTruthy e \<and> has_material_color e
      \<and> color_kind e = TypedArray \<and> isArray h colorToRestore
      \<and> components h colorToRestore = [])"

definition restoreEntityColor :: "scene \<Rightarrow> (addr \<Rightarrow> entity) \<Rightarrow> cval \<Rightarrow> entity \<Rightarrow> entity" where
  "restoreEntityColor sc h originalColor e =
     (if originalColor = CNull then
        (let e1 = restoreViaColorize CNull e
         in if has_setObjectsColorized sc then e1\<lparr>colorize := CNull\<rparr> else e1)
      else
        (let colorToRestore = (if isFloat32Array h originalColor
                               then CArr (take 3 (components h originalColor))
                               else originalColor);
             e1 = restoreViaColorize colorToRestore e;
             e2 = restoreViaMaterial h originalColor colorToRestore e1
         in if has_setObjectsColorized sc \<and> \<not> restoreThrows h colorToRestore e1
            then e2\<lparr>colorize := colorToRestore\<rparr> else e2))"

section \<open>Viewer3D: entity lookup\<close>

text \<open>\<open>key.endsWith(s)\<close>, \<open>s.startsWith(p)\<close> and \<open>s.split('#').pop()\<close>.\<close>

definition endsWith :: "string \<Rightarrow> string \<Rightarrow> bool" where
  "endsWith key s = (length s \<le> length key \<and> drop (length key - length s) key = s)"

definition startsWith :: "string \<Rightarrow> string \<Rightarrow> bool" where
  "startsWith s p = (take (length p) s = p)"

definition lastSegment :: "string \<Rightarrow> string" where
  "lastSegment s = rev (takeWhile (\<lambda>c. c \<noteq> CHR ''#'') (rev s))"

text \<open>
  The property read \<open>obj[key]\<close> on a registry with the given own entries: an own key
  gives its object; a key that is not owned and names an inherited member gives the
  function or object that member holds; any other key gives \<open>undefined\<close>.
\<close>

definition objectRead :: "(string \<times> addr) list \<Rightarrow> (string \<Rightarrow> addr) \<Rightarrow> string \<Rightarrow> addr option" where
  "objectRead entries inherited key =
     (case map_of entries key of
        Some a \<Rightarrow> Some a
      | None \<Rightarrow> (if key \<in> set objectPrototypeMembers then Some (inherited key) else None))"

definition sceneObject :: "scene \<Rightarrow> string \<Rightarrow> addr option" where
  "sceneObject sc key = objectRead (objects sc) (inheritedObject sc) key"

definition compositeKey :: "model \<Rightarrow> string \<Rightarrow> string" where
  "compositeKey m elementId = model_id m @ ''#'' @ elementId"

text \<open>The lookup block shared by \<open>selectElements\<close> and \<open>hideElements\<close>.\<close>

definition lookupEntity :: "scene \<Rightarrow> model \<Rightarrow> string \<Rightarrow> addr option" where
  "lookupEntity sc m elementId =
     (case sceneObject sc (compositeKey m elementId) of
        Some a \<Rightarrow> Some a
      | None \<Rightarrow>
          (case sceneObject sc elementId of
             Some a \<Rightarrow> Some a
           | None \<Rightarrow>
               (case find (\<lambda>key. endsWith key (''#'' @ elementId) \<or> key = elementId)
                       (map fst (objects sc)) of
                  Some matchingKey \<Rightarrow> sceneObject sc matchingKey
                | None \<Rightarrow> None)))"

text \<open>
  The lookup of \<open>showElements\<close>: the same chain, then \<open>model.objects\<close>, a plain object
  of the same kind.
\<close>

definition lookupEntityForShow :: "scene \<Rightarrow> model \<Rightarrow> string \<Rightarrow> addr option" where
  "lookupEntityForShow sc m elementId =
     (case lookupEntity sc m elementId of
        Some a \<Rightarrow> Some a
      | None \<Rightarrow>
          (case model_objects m of
             None \<Rightarrow> None
           | Some objs \<Rightarrow>
               (case objectRead objs (inheritedObject sc) (compositeKey m elementId) of
                  Some a \<Rightarrow> Some a
                | None \<Rightarrow> objectRead objs (inheritedObject sc) elementId)))"

text \<open>The lookup of \<open>isolateElements\<close>: the composite key only.\<close>

definition lookupEntityForIsolate :: "scene \<Rightarrow> model \<Rightarrow> string \<Rightarrow> addr option" where
  "lookupEntityForIsolate sc m elementId = sceneObject sc (compositeKey m elementId)"

text \<open>\<open>elementIds.forEach(id => { ...; if (entity) list.push(entity) })\<close>\<close>

definition collectEntities :: "(string \<Rightarrow> addr option) \<Rightarrow> string list \<Rightarrow> addr list" where
  "collectEntities lookup elementIds =
     concat (map (\<lambda>i. case lookup i of Some a \<Rightarrow> [a] | None \<Rightarrow> []) elementIds)"

section \<open>Viewer3D: selectElements\<close>

text \<open>
  One iteration of the loop that restores the previous selection: the stored original is
  looked up under the entity's key; a record (also one holding \<open>null\<close>) is restored and
  deleted, a missing record resets the entity to its base colour.
\<close>

fun restorePrevious ::
  "scene \<Rightarrow> addr \<Rightarrow> (addr \<Rightarrow> entity) \<times> (string option \<rightharpoonup> cval) \<Rightarrow>
   (addr \<Rightarrow> entity) \<times> (string option \<rightharpoonup> cval)" where
  "restorePrevious sc a (h, L) =
     (let entityId = entityKey (h a) in
      case L entityId of
        Some originalColor \<Rightarrow>
          (h(a := restoreEntityColor sc h originalColor (h a)), L(entityId := None))
      | None \<Rightarrow> (h(a := restoreEntityColor sc h CNull (h a)), L))"

text \<open>The second highlight check, made on the value \<open>getEntityColor\<close> returned.\<close>

definition colorToSave :: "(addr \<Rightarrow> entity) \<Rightarrow> cval \<Rightarrow> cval" where
  "colorToSave h originalColor =
     (if (isArray h originalColor \<or> isFloat32Array h originalColor)
         \<and> isBlueColor (components h originalColor)
      then CNull
      else originalColor)"

text \<open>
  The capture block for the entity at address \<open>a\<close>: first write wins, nothing is stored
  when a record exists. What is stored is the value \<open>getEntityColor\<close> returned, a
  reference when that is the \<open>material.color\<close> object.
\<close>

definition captureOriginal ::
  "(addr \<Rightarrow> entity) \<Rightarrow> (string option \<rightharpoonup> cval) \<Rightarrow> addr \<Rightarrow> (string option \<rightharpoonup> cval)" where
  "captureOriginal h L a =
     (let entityId = entityKey (h a) in
      if L entityId \<noteq> None then L
      else L(entityId \<mapsto> colorToSave h (getEntityColor h a)))"

text \<open>
  Methods 1 to 6 of setting the highlight colour on one entity. \<open>entity.highlight(c)\<close> is
  taken to raise the highlight flag. The writes through \<open>material.color\<close> change the
  object in place: \<open>setRGB\<close> and \<open>set\<close> of a colour object write the three components,
  \<open>set\<close> of a typed array called with numbers copies nothing, and the index writes on a
  plain array replace its first three components.
\<close>

definition applyHighlightColor :: "scene \<Rightarrow> entity \<Rightarrow> entity" where
  "applyHighlightColor sc e =
     (if colorize_member e = MFunction then e\<lparr>colorize := CArr blueColor\<rparr>
      else if colorize_member e \<noteq> MAbsent then e\<lparr>colorize := CArr blueColor\<rparr>
      else if has_highlighted e then e\<lparr>highlighted := True\<rparr>
      else if has_highlight e then e\<lparr>highlighted := True\<rparr>
      else if has_material e then
        (if materialColorizeTruthy e then
           (if material_colorize_member e = MFunction
            then e\<lparr>material_colorize := CArr blueColor\<rparr>
            else e\<lparr>material_colorize := CArr blueColor\<rparr>)
         else if has_material_color e then
           (if colorSetRGB e then e\<lparr>color_comps := blueColor\<rparr>
            else if colorSet e
            then (if color_kind e = TypedArray then e else e\<lparr>color_comps := blueColor\<rparr>)
            else if color_kind e = PlainArray
            then e\<lparr>color_comps := blueColor @ drop 3 (color_comps e)\<rparr>
            else e)
         else e)
      else if has_setObjectsColorized sc then e\<lparr>colorize := CArr blueColor\<rparr>
      else e)"

fun selectStep ::
  "scene \<Rightarrow> addr \<Rightarrow> (addr \<Rightarrow> entity) \<times> (string option \<rightharpoonup> cval) \<Rightarrow>
   (addr \<Rightarrow> entity) \<times> (string option \<rightharpoonup> cval)" where
  "selectStep sc a (h, L) = (h(a := applyHighlightColor sc (h a)), captureOriginal h L a)"

text \<open>
  The first half of \<open>selectElements\<close>: when there is a previous selection, its
  selection flags are cleared by one batch call and every entity of it is restored.
\<close>

definition clearPreviousSelection ::
  "scene \<Rightarrow> addr list \<Rightarrow> (addr \<Rightarrow> entity) \<times> (string option \<rightharpoonup> cval) \<Rightarrow>
   (addr \<Rightarrow> entity) \<times> (string option \<rightharpoonup> cval)" where
  "clearPreviousSelection sc previouslySelected hL =
     (if length previouslySelected > 0
      then fold (restorePrevious sc) previouslySelected
             (setObjectsSelected previouslySelected False (fst hL), snd hL)
      else hL)"

text \<open>
  The second half, for a non-empty list of found entities: the batch call that sets the
  selection flags, the loop that captures and tints each entity, and the additional
  batch colouring when the scene has \<open>setObjectsColorized\<close>.
\<close>

definition highlightSelection ::
  "scene \<Rightarrow> addr list \<Rightarrow> (addr \<Rightarrow> entity) \<times> (string option \<rightharpoonup> cval) \<Rightarrow>
   (addr \<Rightarrow> entity) \<times> (string option \<rightharpoonup> cval)" where
  "highlightSelection sc entitiesToSelect hL =
     (let h2 = setObjectsSelected entitiesToSelect True (fst hL);
          tinted = fold (selectStep sc) entitiesToSelect (h2, snd hL);
          h4 = (if has_setObjectsColorized sc
                then setObjectsColorized entitiesToSelect (CArr blueColor) (fst tinted)
                else fst tinted)
      in (h4, snd tinted))"

definition selectElements :: "string list \<Rightarrow> vstate \<Rightarrow> vstate" where
  "selectElements elementIds S =
     (case viewerRef S of
        None \<Rightarrow> S
      | Some sc \<Rightarrow>
          (case modelRef S of
             None \<Rightarrow> S
           | Some m \<Rightarrow>
               (let restored = clearPreviousSelection sc (previouslySelectedEntities S)
                                 (heap S, originalColors S);
                    entitiesToSelect = collectEntities (lookupEntity sc m) elementIds
                in if length entitiesToSelect > 0 then
                     (let tinted = highlightSelection sc entitiesToSelect restored
                      in S\<lparr>heap := fst tinted, originalColors := snd tinted,
                           previouslySelectedEntities := entitiesToSelect\<rparr>)
                   else S\<lparr>heap := fst restored, originalColors := snd restored,
                          previouslySelectedEntities := []\<rparr>)))"

section \<open>Viewer3D: hideElements, showElements, isolateElements\<close>

text \<open>
  The visibility strategies tried in order on one entity: \<open>entity.visible\<close>,
  \<open>entity.setVisible()\<close>, \<open>entity.culled\<close> (the negated flag), \<open>entity.setCulled()\<close>.
\<close>

definition setEntityVisible :: "bool \<Rightarrow> entity \<Rightarrow> entity" where
  "setEntityVisible b e =
     (if has_visible e then e\<lparr>visible := b\<rparr>
      else if has_setVisible e then e\<lparr>visible := b\<rparr>
      else if has_culled e then e\<lparr>visible := b\<rparr>
      else if has_setCulled e then e\<lparr>visible := b\<rparr>
      else e)"

text \<open>A visibility pass over a list: per entity, then the scene batch, then the model batch.\<close>

definition applyVisibility :: "scene \<Rightarrow> model \<Rightarrow> addr list \<Rightarrow> bool \<Rightarrow> (addr \<Rightarrow> entity) \<Rightarrow> (addr \<Rightarrow> entity)" where
  "applyVisibility sc m as b h =
     (let h1 = forEachEntity (setEntityVisible b) as h;
          h2 = (if has_setObjectsVisible sc then setObjectsVisible as b h1 else h1)
      in if model_has_setObjectsVisible m then setObjectsVisible as b h2 else h2)"

definition hideElements :: "string list \<Rightarrow> vstate \<Rightarrow> vstate" where
  "hideElements elementIds S =
     (case viewerRef S of
        None \<Rightarrow> S
      | Some sc \<Rightarrow>
          (case modelRef S of
             None \<Rightarrow> S
           | Some m \<Rightarrow>
               (let entitiesToHide = collectEntities (lookupEntity sc m) elementIds
                in if length entitiesToHide > 0
                   then S\<lparr>heap := applyVisibility sc m entitiesToHide False (heap S)\<rparr>
                   else S)))"

text \<open>
  Re-asserting the highlight colour on shown objects that are selected: the scene batch
  when present, else \<open>entity.colorize\<close> as a function or a property.
\<close>

definition colorizeDirect :: "entity \<Rightarrow> entity" where
  "colorizeDirect e =
     (if colorize_member e = MFunction then e\<lparr>colorize := CArr blueColor\<rparr>
      else if colorize_member e \<noteq> MAbsent then e\<lparr>colorize := CArr blueColor\<rparr>
      else e)"

definition retintShown :: "scene \<Rightarrow> addr list \<Rightarrow> (addr \<Rightarrow> entity) \<Rightarrow> (addr \<Rightarrow> entity)" where
  "retintShown sc selectedToShow h =
     (if length selectedToShow > 0 then
        (if has_setObjectsColorized sc
         then setObjectsColorized selectedToShow (CArr blueColor) h
         else forEachEntity colorizeDirect selectedToShow h)
      else h)"

definition showElements :: "string list \<Rightarrow> vstate \<Rightarrow> vstate" where
  "showElements elementIds S =
     (case viewerRef S of
        None \<Rightarrow> S
      | Some sc \<Rightarrow>
          (case modelRef S of
             None \<Rightarrow> S
           | Some m \<Rightarrow>
               (let entitiesToShow = collectEntities (lookupEntityForShow sc m) elementIds
                in if length entitiesToShow > 0 then
                     (let h1 = applyVisibility sc m entitiesToShow True (heap S);
                          selectedIds = set (map (\<lambda>a. ent_id (h1 a)) (selectedArray sc h1));
                          selectedToShow =
                            filter (\<lambda>a. ent_id (h1 a) \<in> selectedIds) entitiesToShow
                      in S\<lparr>heap := retintShown sc selectedToShow h1\<rparr>)
                   else S)))"

definition isolateElements :: "string list option \<Rightarrow> vstate \<Rightarrow> vstate" where
  "isolateElements elementIds S =
     (case viewerRef S of
        None \<Rightarrow> S
      | Some sc \<Rightarrow>
          (case modelRef S of
             None \<Rightarrow> S
           | Some m \<Rightarrow>
               (let everything = allObjects sc;
                    selArr = selectedArray sc (heap S)
                in case elementIds of
                     None \<Rightarrow>
                       (let h1 = applyVisibility sc m everything True (heap S);
                            h2 = (if length selArr > 0 then
                                    (if has_setObjectsColorized sc
                                     then setObjectsColorized selArr (CArr blueColor) h1
                                     else if has_setObjectsHighlighted sc
                                     then setObjectsHighlighted selArr True h1
                                     else h1)
                                  else h1)
                        in S\<lparr>heap := h2\<rparr>)
                   | Some ids \<Rightarrow>
                       (let entitiesToShow = collectEntities (lookupEntityForIsolate sc m) ids;
                            h1 = (if length everything > 0
                                  then applyVisibility sc m everything False (heap S)
                                  else heap S);
                            h2 = (if length entitiesToShow > 0 then
                                    (let h' = applyVisibility sc m entitiesToShow True h1;
                                         selectedToShow =
                                           filter (\<lambda>a. \<exists>obj \<in> set selArr. ent_id (h' obj) = ent_id (h' a))
                                             entitiesToShow
                                     in retintShown sc selectedToShow h')
                                  else h1)
                        in S\<lparr>heap := h2\<rparr>))))"

section \<open>Viewer3D: the synchronisation effects\<close>

text \<open>
  The visibility effect. It calls \<open>scene.setObjectsVisible\<close> without a guard: on a build
  without that function the first call throws before anything was changed. Its last
  step re-asserts the highlight colour on the selected objects among those shown.
\<close>

definition retintVisibleSelected :: "scene \<Rightarrow> addr list \<Rightarrow> (addr \<Rightarrow> entity) \<Rightarrow> (addr \<Rightarrow> entity)" where
  "retintVisibleSelected sc objectsToShow h =
     (let selArr = selectedArray sc h in
      if length selArr > 0 \<and> has_setObjectsColorized sc then
        (let visibleSelected =
               filter (\<lambda>a. \<exists>v \<in> set objectsToShow. ent_id (h v) = ent_id (h a)) selArr
         in if length visibleSelected > 0
            then setObjectsColorized visibleSelected (CArr blueColor) h
            else h)
      else h)"

definition visibilityEffect :: "string list \<Rightarrow> string list option \<Rightarrow> vstate \<Rightarrow> js_error + vstate" where
  "visibilityEffect hiddenIds isolatedIds S =
     (case viewerRef S of
        None \<Rightarrow> Inr S
      | Some sc \<Rightarrow>
          (case modelRef S of
             None \<Rightarrow> Inr S
           | Some m \<Rightarrow>
               if isolatedIds \<noteq> None then Inr S
               else
                 (let h = heap S;
                      own = filter (\<lambda>a. startsWith (ent_id (h a)) (model_id m @ ''#''))
                              (allObjects sc);
                      objectsToShow =
                        filter (\<lambda>a. lastSegment (ent_id (h a)) \<notin> set hiddenIds) own;
                      objectsToHide =
                        filter (\<lambda>a. lastSegment (ent_id (h a)) \<in> set hiddenIds) own
                  in if (length objectsToShow > 0 \<or> length objectsToHide > 0)
                        \<and> \<not> has_setObjectsVisible sc
                     then Inl TypeError
                     else
                       (let h1 = (if length objectsToShow > 0
                                  then setObjectsVisible objectsToShow True h else h);
                            h2 = (if length objectsToHide > 0
                                  then setObjectsVisible objectsToHide False h1 else h1)
                        in Inr (S\<lparr>heap := retintVisibleSelected sc objectsToShow h2\<rparr>)))))"

definition selectionEffect :: "string list \<Rightarrow> vstate \<Rightarrow> vstate" where
  "selectionEffect selectedIds S =
     (if viewerRef S = None \<or> modelRef S = None then S else selectElements selectedIds S)"

definition isolationEffect :: "string list option \<Rightarrow> vstate \<Rightarrow> vstate" where
  "isolationEffect isolatedIds S =
     (if viewerRef S = None \<or> modelRef S = None then S else isolateElements isolatedIds S)"

text \<open>
  The properties of the component that drive these effects, and one commit: after a
  render React runs, in the order they are declared in the component, the effects one of
  whose dependencies changed. The selection effect depends on \<open>selectedElementIds\<close>, the
  visibility effect on \<open>hiddenElementIds\<close> and \<open>isolatedElementIds\<close>, the isolation
  effect on \<open>isolatedElementIds\<close>. An effect that throws ends the commit.
\<close>

record viewer_props =
  propSelectedIds :: "string list"
  propHiddenIds :: "string list"
  propIsolatedIds :: "string list option"

definition commitEffects ::
  "bool \<Rightarrow> bool \<Rightarrow> bool \<Rightarrow> viewer_props \<Rightarrow> vstate \<Rightarrow> js_error + vstate" where
  "commitEffects selectedChanged hiddenChanged isolatedChanged P S =
     (let S1 = (if selectedChanged then selectionEffect (propSelectedIds P) S else S)
      in case (if hiddenChanged \<or> isolatedChanged
               then visibilityEffect (propHiddenIds P) (propIsolatedIds P) S1
               else Inr S1) of
           Inl err \<Rightarrow> Inl err
         | Inr S2 \<Rightarrow>
             Inr (if isolatedChanged then isolationEffect (propIsolatedIds P) S2 else S2))"

section \<open>Viewer3D: waiting for the scene during bring-up\<close>

text \<open>
  \<open>waitForViewerReady\<close>: \<open>checkReady\<close> counts the attempt, resolves when the scene and
  its canvas exist, rejects at \<open>maxAttempts\<close>, and otherwise re-arms a timer. The
  observation made by the n-th check is the parameter \<open>sceneReady n\<close>; the delays passed
  to \<open>setTimeout\<close> are collected in order.
\<close>

datatype init_error = ViewerInitTimeout

definition maxAttempts :: nat where
  "maxAttempts = 50"

function checkReady :: "(nat \<Rightarrow> bool) \<Rightarrow> nat \<Rightarrow> nat list \<Rightarrow> (init_error + unit) \<times> nat list" where
  "checkReady sceneReady attempts timers =
     (if sceneReady (Suc attempts) then (Inr (), timers)
      else if Suc attempts \<ge> maxAttempts then (Inl ViewerInitTimeout, timers)
      else checkReady sceneReady (Suc attempts) (timers @ [100]))"
  by pat_completeness auto
termination
  by (relation "measure (\<lambda>(r, attempts, t). maxAttempts - attempts)") auto

declare checkReady.simps [simp del]

definition waitForViewerReady :: "(nat \<Rightarrow> bool) \<Rightarrow> (init_error + unit) \<times> nat list" where
  "waitForViewerReady sceneReady = checkReady sceneReady 0 []"

text \<open>
  The state cells of the component that show the outcome, and the part of \<open>initViewer\<close>
  around the wait: \<open>setLoading(true)\<close>, \<open>setError(null)\<close>, the wait, and the
  \<open>catch\<close> block, which records the error message and clears the loading flag while the
  component is mounted. The message of the timeout error is a non-empty text, so
  \<open>err.message || ...\<close> keeps it; it is represented by the error itself.
\<close>

record load_state =
  loading :: bool
  error :: "init_error option"

definition initViewerWait :: "bool \<Rightarrow> (nat \<Rightarrow> bool) \<Rightarrow> load_state \<Rightarrow> load_state" where
  "initViewerWait isMounted sceneReady ls =
     (let ls1 = ls\<lparr>loading := True, error := None\<rparr> in
      case fst (waitForViewerReady sceneReady) of
        Inr _ \<Rightarrow> ls1
      | Inl err \<Rightarrow> (if isMounted then ls1\<lparr>error := Some err, loading := False\<rparr> else ls1))"

section \<open>Concrete inputs\<close>

text \<open>A page with a loaded metadata index of two elements, element A selected.\<close>

definition elementsAB :: "string \<rightharpoonup> element" where
  "elementsAB =
     [''A'' \<mapsto> \<lparr>category = ''Wall'', family = None, etype = None\<rparr>,
      ''B'' \<mapsto> \<lparr>category = ''Door'', family = None, etype = None\<rparr>]"

definition page0 :: page_state where
  "page0 =
     \<lparr>metadata = Some \<lparr>elements = Some elementsAB\<rparr>,
      selectedElementId = Some ''A'', selectedElementIds = [''A''],
      hiddenElementIds = [], isolatedElementIds = None, xrayMode = False,
      displayMode = Shaded, viewerRefCurrent = True\<rparr>"

definition ctrlClick :: "mouse_event option" where
  "ctrlClick = Some \<lparr>ctrlKey = True, metaKey = False\<rparr>"

text \<open>
  Whether some visibility strategy reaches an entity: one of its own members, or one of
  the two batch mutators.
\<close>

definition canSetVisible :: "scene \<Rightarrow> model \<Rightarrow> entity \<Rightarrow> bool" where
  "canSetVisible sc m e =
     (has_visible e \<or> has_setVisible e \<or> has_culled e \<or> has_setCulled e
      \<or> has_setObjectsVisible sc \<or> model_has_setObjectsVisible m)"

text \<open>
  A scene with all batch mutators, a model without \<open>objects\<close> and
  \<open>setObjectsVisible\<close>, and an entity with the members of the engine the component
  imports: \<open>colorize\<close>, \<open>visible\<close>, \<open>culled\<close> and \<open>highlighted\<close> as properties, no
  material. The inherited members of the registry are given the addresses from 1000 on.
\<close>

definition prototypeAddress :: "string \<Rightarrow> addr" where
  "prototypeAddress key = 1000 + length (takeWhile (\<lambda>k. k \<noteq> key) objectPrototypeMembers)"

definition sceneOf :: "(string \<times> addr) list \<Rightarrow> scene" where
  "sceneOf objs =
     \<lparr>objects = objs, inheritedObject = prototypeAddress,
      has_setObjectsVisible = True,
      has_setObjectsColorized = True, has_setObjectsHighlighted = True\<rparr>"

definition modelOf :: "string \<Rightarrow> model" where
  "modelOf i = \<lparr>model_id = i, model_objects = None, model_has_setObjectsVisible = False\<rparr>"

definition xeokitEntity :: "string \<Rightarrow> cval \<Rightarrow> entity" where
  "xeokitEntity i c =
     \<lparr>ent_id = i, ent_entityId = None, colorize_member = MProperty,
      has_private_colorize = False, has_highlighted = True, has_highlight = False,
      has_material = False, material_colorize_member = MAbsent, has_material_color = False,
      color_kind = PlainArray,
      color_has_setRGB = False, color_has_copy = False, color_has_set = False,
      has_visible = True, has_setVisible = False, has_culled = True, has_setCulled = False,
      visible = True, selected = False, colorize = c, material_colorize = CNull,
      color_comps = [], highlighted = False\<rparr>"

text \<open>
  An object that is none of the engine's, such as the functions the registry inherits:
  it has no id and none of the members the component probes.
\<close>

definition functionObject :: entity where
  "functionObject =
     \<lparr>ent_id = [], ent_entityId = None, colorize_member = MAbsent,
      has_private_colorize = False, has_highlighted = False, has_highlight = False,
      has_material = False, material_colorize_member = MAbsent, has_material_color = False,
      color_kind = PlainArray,
      color_has_setRGB = False, color_has_copy = False, color_has_set = False,
      has_visible = False, has_setVisible = False, has_culled = False, has_setCulled = False,
      visible = False, selected = False, colorize = CNull, material_colorize = CNull,
      color_comps = [], highlighted = False\<rparr>"

text \<open>
  A loaded model m1 with three live objects: one registered under the bare key E1, one
  under the composite key of the model, one under the composite key of another model.
\<close>

definition mixedKeyScene :: scene where
  "mixedKeyScene = sceneOf [(''E1'', 0), (''m1#E2'', 1), (''m2#E3'', 2)]"

definition mixedKeyState :: vstate where
  "mixedKeyState =
     \<lparr>viewerRef = Some mixedKeyScene,
      modelRef = Some (modelOf ''m1''),
      heap = (\<lambda>a. if a = 0 then xeokitEntity ''E1'' CNull
                  else if a = 1 then xeokitEntity ''m1#E2'' CNull
                  else if a = 2 then xeokitEntity ''m2#E3'' CNull
                  else functionObject),
      previouslySelectedEntities = [],
      originalColors = Map.empty\<rparr>"

text \<open>The same state with a record for the first object in the colour map.\<close>

definition recordedState :: vstate where
  "recordedState = mixedKeyState\<lparr>originalColors := [Some ''E1'' \<mapsto> CNull]\<rparr>"

text \<open>
  The same model on a build where no visibility strategy exists: the objects have none
  of \<open>visible\<close>, \<open>setVisible\<close>, \<open>culled\<close> and \<open>setCulled\<close>, and neither the scene nor the
  model has \<open>setObjectsVisible\<close>.
\<close>

definition inertEntity :: "string \<Rightarrow> entity" where
  "inertEntity i =
     (xeokitEntity i CNull)\<lparr>has_visible := False, has_culled := False\<rparr>"

definition inertScene :: scene where
  "inertScene = mixedKeyScene\<lparr>has_setObjectsVisible := False\<rparr>"

definition inertState :: vstate where
  "inertState =
     \<lparr>viewerRef = Some inertScene,
      modelRef = Some (modelOf ''m1''),
      heap = (\<lambda>a. if a = 0 then inertEntity ''E1''
                  else if a = 1 then inertEntity ''m1#E2''
                  else if a = 2 then inertEntity ''m2#E3''
                  else functionObject),
      previouslySelectedEntities = [],
      originalColors = Map.empty\<rparr>"

text \<open>
  A colour value whose components, read in the store, are within the tolerance of the
  highlight colour.
\<close>

definition isHighlight :: "(addr \<Rightarrow> entity) \<Rightarrow> cval \<Rightarrow> bool" where
  "isHighlight h c = isBlueColor (components h c)"

text \<open>
  Every record of the colour map belongs to an entity of the previous selection: the
  keys of the map are keys of entities in \<open>previouslySelectedEntitiesRef\<close>.
\<close>

definition ledgerCovered :: "vstate \<Rightarrow> bool" where
  "ledgerCovered S =
     (dom (originalColors S)
        \<subseteq> (\<lambda>a. entityKey (heap S a)) ` set (previouslySelectedEntities S))"

text \<open>
  A loaded model m1 with the four objects A, B, C and D under their composite keys; B
  carries a red colour override. Nothing is selected and the colour map is empty, as
  after mounting.
\<close>

definition abcdScene :: scene where
  "abcdScene = sceneOf [(''m1#A'', 0), (''m1#B'', 1), (''m1#C'', 2), (''m1#D'', 3)]"

definition abcdHeap :: "addr \<Rightarrow> entity" where
  "abcdHeap a =
     (if a = 0 then xeokitEntity ''m1#A'' CNull
      else if a = 1 then xeokitEntity ''m1#B'' (CArr [1, 0, 0])
      else if a = 2 then xeokitEntity ''m1#C'' CNull
      else if a = 3 then xeokitEntity ''m1#D'' CNull
      else functionObject)"

definition abcdState :: vstate where
  "abcdState =
     \<lparr>viewerRef = Some abcdScene, modelRef = Some (modelOf ''m1''), heap = abcdHeap,
      previouslySelectedEntities = [], originalColors = Map.empty\<rparr>"









text \<open>
  Whether the restore and the tint can write through the material of an entity: the
  entity has a material with a truthy \<open>colorize\<close> or with a \<open>color\<close>. \<open>materialFree\<close>
  says of every entity the ids resolve to that this is not so.
\<close>

definition materialWritable :: "entity \<Rightarrow> bool" where
  "materialWritable e =
     (has_material e \<and> (materialColorizeTruthy e \<or> has_material_color e))"


text \<open>
  Notions for reasoning about one entity across the two halves of \<open>selectElements\<close>:
  whether the highlight colour can be written to the colour override of the entity (the
  scene has \<open>setObjectsColorized\<close>, or the entity has \<open>colorize\<close> as a function or a
  property), the highlight flag after tinting, equality of two entities up to the
  selection flag and the colour override, and the relation between an entity whose
  material cannot be written and what tinting makes of it.
\<close>

definition tintReaches :: "scene \<Rightarrow> entity \<Rightarrow> bool" where
  "tintReaches sc e = (has_setObjectsColorized sc \<or> colorize_member e \<noteq> MAbsent)"

definition highlightedAfter :: "entity \<Rightarrow> bool" where
  "highlightedAfter e =
     (if colorize_member e = MAbsent \<and> (has_highlighted e \<or> has_highlight e) then True
      else highlighted e)"



text \<open>
  An object whose only colour member is \<open>material.color\<close>, a plain array holding red,
  on a scene without \<open>setObjectsColorized\<close>.
\<close>

definition paintedEntity :: entity where
  "paintedEntity =
     \<lparr>ent_id = ''m1#A'', ent_entityId = None, colorize_member = MAbsent,
      has_private_colorize = False, has_highlighted = False, has_highlight = False,
      has_material = True, material_colorize_member = MAbsent, has_material_color = True,
      color_kind = PlainArray,
      color_has_setRGB = False, color_has_copy = False, color_has_set = False,
      has_visible = True, has_setVisible = False, has_culled = False, has_setCulled = False,
      visible = True, selected = False, colorize = CNull, material_colorize = CNull,
      color_comps = [1, 0, 0], highlighted = False\<rparr>"

definition paintedState :: vstate where
  "paintedState =
     \<lparr>viewerRef = Some ((sceneOf [(''m1#A'', 0)])\<lparr>has_setObjectsColorized := False\<rparr>),
      modelRef = Some (modelOf ''m1''),
      heap = (\<lambda>a. if a = 0 then paintedEntity else functionObject),
      previouslySelectedEntities = [], originalColors = Map.empty\<rparr>"



section \<open>Theorems\<close>

subsection \<open>Doubles and the tolerance test\<close>

lemmas double_defs = toDouble_def scaleUp.simps scaleDown.simps roundHalfEven_def

text \<open>The doubles that the literals 0.23, 0.51, 0.96 and 0.01 denote.\<close>

lemma highlight_values:
  "highlightRed = 8286623314361713 / 36028797018963968"
  "highlightGreen = 2296835809958953 / 4503599627370496"
  "highlightBlue = 1080863910568919 / 1125899906842624"
  "tolerance = 5764607523034235 / 576460752303423488"
  by (simp_all add: highlightRed_def highlightGreen_def highlightBlue_def tolerance_def
        double_defs)

lemma toDouble_examples:
  "toDouble 1 = 1"
  "toDouble (1 / 3) = 6004799503160661 / 18014398509481984"
  "toDouble (10 ^ 20 + 1) = 10 ^ 20"
  by (simp_all add: double_defs)

lemmas near_defs = nearHighlight_def highlight_values double_defs

text \<open>
  The test on one component, as it comes out on doubles: at the colour itself, at its
  value as a 32-bit float, at a distance of 0.01 on either side, and far off.
\<close>

lemma near_red:
  "nearHighlight (23 / 100) highlightRed"
  "nearHighlight highlightRed highlightRed"
  "nearHighlight (15435039 / 67108864) highlightRed"
  "nearHighlight (24 / 100) highlightRed"
  "\<not> nearHighlight (22 / 100) highlightRed"
  "\<not> nearHighlight 1 highlightRed"
  "\<not> nearHighlight 0 highlightRed"
  by (simp_all add: near_defs)

lemma near_green:
  "nearHighlight (51 / 100) highlightGreen"
  "nearHighlight highlightGreen highlightGreen"
  "nearHighlight (2139095 / 4194304) highlightGreen"
  "\<not> nearHighlight (52 / 100) highlightGreen"
  "\<not> nearHighlight (50 / 100) highlightGreen"
  "\<not> nearHighlight 1 highlightGreen"
  "\<not> nearHighlight 0 highlightGreen"
  by (simp_all add: near_defs)

lemma near_blue:
  "nearHighlight (96 / 100) highlightBlue"
  "nearHighlight highlightBlue highlightBlue"
  "nearHighlight (16106127 / 16777216) highlightBlue"
  "\<not> nearHighlight (97 / 100) highlightBlue"
  "\<not> nearHighlight (95 / 100) highlightBlue"
  "\<not> nearHighlight 1 highlightBlue"
  "\<not> nearHighlight 0 highlightBlue"
  by (simp_all add: near_defs)

text \<open>
  Of the colours that differ from the highlight colour by 0.01 in one component, only
  the one with the red component 0.24 passes the test.
\<close>

lemma tolerance_band_edges:
  "isBlueColor [24 / 100, 51 / 100, 96 / 100]"
  "\<not> isBlueColor [22 / 100, 51 / 100, 96 / 100]"
  "\<not> isBlueColor [23 / 100, 52 / 100, 96 / 100]"
  "\<not> isBlueColor [23 / 100, 50 / 100, 96 / 100]"
  "\<not> isBlueColor [23 / 100, 51 / 100, 97 / 100]"
  "\<not> isBlueColor [23 / 100, 51 / 100, 95 / 100]"
  by (simp_all only: isBlueColor_def list.case near_red near_green near_blue simp_thms)

text \<open>
  The highlight colour itself passes, also with its components as 32-bit floats; red
  and green do not, and neither does a list of fewer than three components.
\<close>

lemma isBlueColor_blueColor: "isBlueColor blueColor"
  by (simp only: blueColor_def isBlueColor_def list.case near_red near_green near_blue simp_thms)

lemma isBlueColor_float32:
  "isBlueColor [15435039 / 67108864, 2139095 / 4194304, 16106127 / 16777216]"
  by (simp only: isBlueColor_def list.case near_red near_green near_blue simp_thms)

lemma isBlueColor_red: "\<not> isBlueColor [1, 0, 0]"
  by (simp only: isBlueColor_def list.case near_red near_green near_blue simp_thms)

lemma isBlueColor_green: "\<not> isBlueColor [0, 1, 0]"
  by (simp only: isBlueColor_def list.case near_red near_green near_blue simp_thms)

lemma isBlueColor_Nil: "\<not> isBlueColor []"
  by (simp add: isBlueColor_def)

lemma isBlueColor_length: "isBlueColor xs \<Longrightarrow> length xs \<ge> 3"
  by (auto simp: isBlueColor_def split: list.splits)

lemmas blue_evals = isBlueColor_blueColor isBlueColor_red isBlueColor_green isBlueColor_Nil

subsection \<open>Selection transitions of the page\<close>

text \<open>
  Claim C6. For a non-empty element id that passes the metadata guard, a plain click
  replaces the selection by the one id; a click with the modifier held removes the id
  when it is selected and appends it when it is not, the other members keeping their
  order. The operation table receives the new selection. (The empty id is the page's
  signal for a click on empty space and clears the selection.)
\<close>

theorem select_transition:
  assumes "elementId \<noteq> []" and "\<not> missingFromMetadata p elementId"
  shows "selectedElementIds (fst (handleElementSelect elementId ev p)) =
           (if \<not> isCtrlPressed ev then [elementId]
            else if elementId \<in> set (selectedElementIds p)
                 then filter (\<lambda>i. i \<noteq> elementId) (selectedElementIds p)
                 else selectedElementIds p @ [elementId])
         \<and> snd (handleElementSelect elementId ev p) =
             callViewer p
               (SelectElements (selectedElementIds (fst (handleElementSelect elementId ev p))))"
  using assms by (simp add: handleElementSelect_def Let_def callViewer_def)

theorem select_transition_witness:
  "selectedElementIds (fst (handleElementSelect ''B'' ctrlClick page0)) = [''A'', ''B'']
   \<and> selectedElementIds (fst (handleElementSelect ''A'' ctrlClick page0)) = []
   \<and> selectedElementIds (fst (handleElementSelect ''B'' None page0)) = [''B'']"
  using select_transition [of "''B''" page0 ctrlClick]
        select_transition [of "''A''" page0 ctrlClick]
        select_transition [of "''B''" page0 None]
  by (simp add: page0_def elementsAB_def ctrlClick_def missingFromMetadata_def
        isCtrlPressed_def)


subsection \<open>The metadata guard\<close>

lemma missing_id_rejected:
  "(metadata p = Some m \<and> elements m = Some els \<and> els elementId = None \<and> elementId \<noteq> []
      \<and> elementId \<notin> set objectPrototypeMembers
      \<longrightarrow> handleElementSelect elementId ev p = (p, []))
   \<and> (metadata p = None \<and> elementId \<noteq> [] \<and> \<not> isCtrlPressed ev
      \<longrightarrow> selectedElementIds (fst (handleElementSelect elementId ev p)) = [elementId])
   \<and> (metadata p = None \<and> elementId \<noteq> [] \<and> isCtrlPressed ev
        \<and> elementId \<notin> set (selectedElementIds p)
      \<longrightarrow> selectedElementIds (fst (handleElementSelect elementId ev p))
            = selectedElementIds p @ [elementId])"
  by (simp add: handleElementSelect_def missingFromMetadata_def Let_def)

lemma missing_id_rejected_Z: "handleElementSelect ''Z'' None page0 = (page0, [])"
  by (simp add: handleElementSelect_def missingFromMetadata_def page0_def elementsAB_def
        objectPrototypeMembers_def)

text \<open>
  Claim C9. The metadata index of the page holds the elements A and B. The id
  \<open>constructor\<close> is not a key of it, so the claim has the click ignored; but the guard
  reads \<open>metadata.elements['constructor']\<close>, which is the inherited constructor
  function, and lets the id pass: the click selects it and \<open>selectElements\<close> is called
  with it.
\<close>

theorem inherited_name_passes_guard:
  "elementsAB ''constructor'' = None
   \<and> handleElementSelect ''constructor'' None page0
       = (page0\<lparr>selectedElementId := Some ''constructor'',
                selectedElementIds := [''constructor'']\<rparr>,
          [SelectElements [''constructor'']])"
  by (simp add: handleElementSelect_def missingFromMetadata_def page0_def elementsAB_def
        objectPrototypeMembers_def isCtrlPressed_def callViewer_def)

subsection \<open>Waiting for the scene\<close>

lemma checkReady_timers:
  "attempts < maxAttempts \<Longrightarrow>
   \<exists>k. snd (checkReady r attempts ts) = ts @ replicate k 100 \<and> attempts + k < maxAttempts"
proof (induction r attempts ts rule: checkReady.induct)
  case (1 r attempts ts)
  show ?case
  proof (cases "r (Suc attempts) \<or> Suc attempts \<ge> maxAttempts")
    case True
    then have "snd (checkReady r attempts ts) = ts @ replicate 0 100"
      by (auto simp: checkReady.simps [of r attempts ts])
    with "1.prems" show ?thesis by (metis add.right_neutral)
  next
    case False
    then have step: "checkReady r attempts ts = checkReady r (Suc attempts) (ts @ [100])"
      by (simp add: checkReady.simps [of r attempts ts])
    from False have "Suc attempts < maxAttempts" by simp
    with "1.IH" False obtain k where
      k: "snd (checkReady r (Suc attempts) (ts @ [100])) = (ts @ [100]) @ replicate k 100"
         "Suc attempts + k < maxAttempts"
      by auto
    have "(ts @ [100]) @ replicate k (100::nat) = ts @ replicate (Suc k) 100"
      by (simp add: replicate_app_Cons_same)
    with k step show ?thesis
      by (metis add_Suc_shift)
  qed
qed

lemma checkReady_never_ready:
  "attempts < maxAttempts \<Longrightarrow> \<forall>n. attempts < n \<and> n \<le> maxAttempts \<longrightarrow> \<not> r n \<Longrightarrow>
   checkReady r attempts ts =
     (Inl ViewerInitTimeout, ts @ replicate (maxAttempts - Suc attempts) 100)"
proof (induction r attempts ts rule: checkReady.induct)
  case (1 r attempts ts)
  have nr: "\<not> r (Suc attempts)" using "1.prems" by auto
  show ?case
  proof (cases "Suc attempts \<ge> maxAttempts")
    case True
    with nr "1.prems" show ?thesis
      by (simp add: checkReady.simps [of r attempts ts])
  next
    case False
    then have step: "checkReady r attempts ts = checkReady r (Suc attempts) (ts @ [100])"
      using nr by (simp add: checkReady.simps [of r attempts ts])
    have "checkReady r (Suc attempts) (ts @ [100]) =
            (Inl ViewerInitTimeout,
             (ts @ [100]) @ replicate (maxAttempts - Suc (Suc attempts)) 100)"
      using "1.IH" nr False "1.prems" by auto
    moreover have "(ts @ [100]) @ replicate (maxAttempts - Suc (Suc attempts)) (100::nat)
                     = ts @ replicate (maxAttempts - Suc attempts) 100"
      using False by (simp add: replicate_app_Cons_same Suc_diff_Suc not_le flip: replicate_Suc)
    ultimately show ?thesis using step by simp
  qed
qed

text \<open>
  Claim C7. The wait for the scene is a total function: it re-arms its timer fewer than
  50 times, every time with a delay of 100 ms, so it makes at most 50 checks. When none
  of the 50 checks finds the scene, the wait rejects with the timeout error after 49
  timers, and the mounted component ends with that error recorded and the loading flag
  cleared.
\<close>

theorem scene_wait_bounded:
  "(\<exists>k < 50. snd (waitForViewerReady r) = replicate k 100)
   \<and> ((\<forall>n. 0 < n \<and> n \<le> 50 \<longrightarrow> \<not> r n) \<longrightarrow>
        waitForViewerReady r = (Inl ViewerInitTimeout, replicate 49 100)
        \<and> initViewerWait True r ls = ls\<lparr>loading := False, error := Some ViewerInitTimeout\<rparr>)"
proof -
  have m: "maxAttempts = 50" by (simp add: maxAttempts_def)
  have a: "\<exists>k < 50. snd (waitForViewerReady r) = replicate k 100"
    using checkReady_timers [of 0 r "[]"] by (auto simp: waitForViewerReady_def m)
  have b: "waitForViewerReady r = (Inl ViewerInitTimeout, replicate 49 100)"
    if "\<forall>n. 0 < n \<and> n \<le> 50 \<longrightarrow> \<not> r n"
    using checkReady_never_ready [of 0 r "[]"] that by (simp add: waitForViewerReady_def m)
  from a b show ?thesis
    by (auto simp: initViewerWait_def Let_def)
qed

theorem scene_wait_bounded_witness:
  "waitForViewerReady (\<lambda>n. False) = (Inl ViewerInitTimeout, replicate 49 100)
   \<and> initViewerWait True (\<lambda>n. False) \<lparr>loading = True, error = None\<rparr>
       = \<lparr>loading = False, error = Some ViewerInitTimeout\<rparr>"
  using scene_wait_bounded [of "\<lambda>n. False" "\<lparr>loading = True, error = None\<rparr>"] by simp


subsection \<open>Entity lookup\<close>

lemma find_cong_set: "(\<And>x. x \<in> set xs \<Longrightarrow> P x = Q x) \<Longrightarrow> find P xs = find Q xs"
  by (induction xs) auto

lemma objectRead_own: "map_of entries k = Some a \<Longrightarrow> objectRead entries inh k = Some a"
  by (simp add: objectRead_def)

lemma objectRead_None_iff:
  "objectRead entries inh k = None
     \<longleftrightarrow> k \<notin> set (map fst entries) \<and> k \<notin> set objectPrototypeMembers"
proof (cases "map_of entries k")
  case None
  then have "k \<notin> fst ` set entries" by (simp add: map_of_eq_None_iff)
  with None show ?thesis by (simp add: objectRead_def del: map_of_eq_None_iff)
next
  case (Some a)
  then have "map_of entries k \<noteq> None" by simp
  then have "k \<in> fst ` set entries" by (simp add: map_of_eq_None_iff)
  with Some show ?thesis by (simp add: objectRead_def)
qed

lemma sceneObject_None_iff:
  "sceneObject sc k = None
     \<longleftrightarrow> k \<notin> set (map fst (objects sc)) \<and> k \<notin> set objectPrototypeMembers"
  by (simp add: sceneObject_def objectRead_None_iff)

lemma hash_in_compositeKey: "CHR ''#'' \<in> set (compositeKey m i)"
  by (simp add: compositeKey_def)

lemma no_hash_in_prototype_member: "k \<in> set objectPrototypeMembers \<Longrightarrow> CHR ''#'' \<notin> set k"
  by (auto simp: objectPrototypeMembers_def)

lemma compositeKey_not_inherited: "compositeKey m i \<notin> set objectPrototypeMembers"
  using hash_in_compositeKey [of m i] no_hash_in_prototype_member [of "compositeKey m i"]
  by blast

lemma sceneObject_compositeKey:
  "sceneObject sc (compositeKey m i) = map_of (objects sc) (compositeKey m i)"
  by (simp add: sceneObject_def objectRead_def compositeKey_not_inherited
        split: option.splits)

lemma sceneObject_composite_in_allObjects:
  "sceneObject sc (compositeKey m i) = Some a \<Longrightarrow> a \<in> set (allObjects sc)"
  unfolding sceneObject_compositeKey allObjects_def
  by (metis map_of_SomeD image_eqI set_map snd_conv)

lemma collectEntities_set:
  "set (collectEntities f ids) = {a. \<exists>i \<in> set ids. f i = Some a}"
  by (induction ids) (auto simp: collectEntities_def split: option.splits)

lemma find_suffix_only:
  assumes "sceneObject sc i = None"
  shows "find (\<lambda>key. endsWith key (''#'' @ i) \<or> key = i) (map fst (objects sc))
           = find (\<lambda>key. endsWith key (''#'' @ i)) (map fst (objects sc))"
proof (rule find_cong_set)
  fix x assume "x \<in> set (map fst (objects sc))"
  with assms have "x \<noteq> i" by (auto simp: sceneObject_None_iff)
  then show "(endsWith x (''#'' @ i) \<or> x = i) = endsWith x (''#'' @ i)" by simp
qed

lemma lookupEntity_suffix:
  assumes "sceneObject sc (compositeKey m i) = None" and "sceneObject sc i = None"
  shows "lookupEntity sc m i =
           (case find (\<lambda>key. endsWith key (''#'' @ i)) (map fst (objects sc)) of
              Some matchingKey \<Rightarrow> sceneObject sc matchingKey
            | None \<Rightarrow> None)"
  unfolding lookupEntity_def using assms find_suffix_only [OF assms(2)]
  by (auto simp del: append.simps)

lemma lookupEntity_no_match:
  assumes "i \<notin> set objectPrototypeMembers"
      and "\<forall>key \<in> set (map fst (objects sc)).
             key \<noteq> compositeKey m i \<and> key \<noteq> i \<and> \<not> endsWith key (''#'' @ i)"
  shows "lookupEntity sc m i = None"
proof -
  have c: "sceneObject sc (compositeKey m i) = None"
    using assms(2) by (auto simp: sceneObject_None_iff compositeKey_not_inherited)
  have b: "sceneObject sc i = None"
    using assms by (auto simp: sceneObject_None_iff)
  have "find (\<lambda>key. endsWith key (''#'' @ i)) (map fst (objects sc)) = None"
    using assms(2) by (auto simp: find_None_iff simp del: append.simps)
  with lookupEntity_suffix [OF c b] show ?thesis by simp
qed

text \<open>
  Claim C3, as amended. The lookup of \<open>selectElements\<close> and \<open>hideElements\<close> tries the
  read under the composite key, then the read under the bare key, then the first live
  key, in enumeration order, that ends in \<open>#id\<close>; the first scheme that finds an object
  decides. One id yields at most one object. An id that resolves to nothing contributes
  nothing, and the ids before and after it in the batch are resolved as without it;
  this is the case of every id that names no inherited member of the registry and that
  no live key matches under any of the three schemes.
\<close>

theorem lookup_chain:
  "(sceneObject sc (compositeKey m i) = Some a \<longrightarrow> lookupEntity sc m i = Some a)
   \<and> (sceneObject sc (compositeKey m i) = None \<and> sceneObject sc i = Some a
        \<longrightarrow> lookupEntity sc m i = Some a)
   \<and> (sceneObject sc (compositeKey m i) = None \<and> sceneObject sc i = None
        \<longrightarrow> lookupEntity sc m i =
             (case find (\<lambda>key. endsWith key (''#'' @ i)) (map fst (objects sc)) of
                Some matchingKey \<Rightarrow> sceneObject sc matchingKey
              | None \<Rightarrow> None))
   \<and> length (collectEntities (lookupEntity sc m) [i]) \<le> 1
   \<and> (lookupEntity sc m i = None
        \<longrightarrow> collectEntities (lookupEntity sc m) [i] = []
          \<and> collectEntities (lookupEntity sc m) (before @ i # after)
              = collectEntities (lookupEntity sc m) before
                @ collectEntities (lookupEntity sc m) after)
   \<and> (i \<notin> set objectPrototypeMembers
      \<and> (\<forall>key \<in> set (map fst (objects sc)).
             key \<noteq> compositeKey m i \<and> key \<noteq> i \<and> \<not> endsWith key (''#'' @ i))
        \<longrightarrow> lookupEntity sc m i = None)"
proof -
  have p1: "sceneObject sc (compositeKey m i) = Some a \<longrightarrow> lookupEntity sc m i = Some a"
    by (simp add: lookupEntity_def)
  have p2: "sceneObject sc (compositeKey m i) = None \<and> sceneObject sc i = Some a
              \<longrightarrow> lookupEntity sc m i = Some a"
    by (simp add: lookupEntity_def)
  have p3: "sceneObject sc (compositeKey m i) = None \<and> sceneObject sc i = None
        \<longrightarrow> lookupEntity sc m i =
             (case find (\<lambda>key. endsWith key (''#'' @ i)) (map fst (objects sc)) of
                Some matchingKey \<Rightarrow> sceneObject sc matchingKey
              | None \<Rightarrow> None)"
    using lookupEntity_suffix [of sc m i] by blast
  have p4: "length (collectEntities (lookupEntity sc m) [i]) \<le> 1"
    by (simp add: collectEntities_def split: option.splits)
  have p5: "lookupEntity sc m i = None
        \<longrightarrow> collectEntities (lookupEntity sc m) [i] = []
          \<and> collectEntities (lookupEntity sc m) (before @ i # after)
              = collectEntities (lookupEntity sc m) before
                @ collectEntities (lookupEntity sc m) after"
    by (simp add: collectEntities_def)
  have p6: "i \<notin> set objectPrototypeMembers
      \<and> (\<forall>key \<in> set (map fst (objects sc)).
             key \<noteq> compositeKey m i \<and> key \<noteq> i \<and> \<not> endsWith key (''#'' @ i))
        \<longrightarrow> lookupEntity sc m i = None"
    using lookupEntity_no_match [of i sc m] by blast
  from p1 p2 p3 p4 p5 p6 show ?thesis by blast
qed

lemmas lookup_defs =
  sceneOf_def modelOf_def sceneObject_def objectRead_def compositeKey_def endsWith_def
  collectEntities_def objectPrototypeMembers_def

text \<open>
  The three lookups of the specification's resolution example, and a batch whose first
  id has no object.
\<close>

theorem lookup_chain_witness:
  "lookupEntity (sceneOf [(''m1#E1'', 7)]) (modelOf ''m1'') ''E1'' = Some 7
   \<and> lookupEntity (sceneOf [(''E1'', 7)]) (modelOf ''m1'') ''E1'' = Some 7
   \<and> lookupEntity (sceneOf [(''m2#E1'', 7)]) (modelOf ''m1'') ''E1'' = Some 7
   \<and> lookupEntity (sceneOf [(''m1#E1'', 7)]) (modelOf ''m1'') ''E0'' = None
   \<and> collectEntities (lookupEntity (sceneOf [(''m1#E1'', 7)]) (modelOf ''m1''))
        [''E0'', ''E1''] = [7]"
  using lookup_chain [of "sceneOf [(''m1#E1'', 7)]" "modelOf ''m1''" "''E1''" 7 "[]" "[]"]
        lookup_chain [of "sceneOf [(''E1'', 7)]" "modelOf ''m1''" "''E1''" 7 "[]" "[]"]
        lookup_chain [of "sceneOf [(''m2#E1'', 7)]" "modelOf ''m1''" "''E1''" 7 "[]" "[]"]
        lookup_chain [of "sceneOf [(''m1#E1'', 7)]" "modelOf ''m1''" "''E0''" 7 "[]" "[''E1'']"]
  by (simp add: lookup_defs)

text \<open>
  Two live keys end in \<open>#E1\<close> and the model is m1: the suffix scheme returns the object
  of the first key only, not both.
\<close>

theorem lookup_all_matches_counterexample:
  "endsWith ''m2#E1'' ''#E1'' \<and> endsWith ''m3#E1'' ''#E1''
   \<and> collectEntities
        (lookupEntity (sceneOf [(''m2#E1'', 1), (''m3#E1'', 2)]) (modelOf ''m1'')) [''E1'']
       = [1]"
  by (simp add: lookup_defs lookupEntity_def)

text \<open>
  The read under the bare key also resolves inherited members: with no live key for it,
  the id \<open>constructor\<close> resolves to the constructor function the registry inherits.
\<close>

lemma lookup_inherited_member:
  "lookupEntity (sceneOf [(''m1#E1'', 7)]) (modelOf ''m1'') ''constructor''
     = Some (prototypeAddress ''constructor'')"
  by (simp add: lookup_defs lookupEntity_def)

subsection \<open>Loops over entity references\<close>

lemma forEachEntity_Nil: "forEachEntity f [] h = h"
  by (simp add: forEachEntity_def)

lemma forEachEntity_Cons: "forEachEntity f (x # xs) h = forEachEntity f xs (h(x := f (h x)))"
  by (simp add: forEachEntity_def)

lemma forEachEntity_notin: "a \<notin> set as \<Longrightarrow> forEachEntity f as h a = h a"
  by (induction as arbitrary: h) (simp_all add: forEachEntity_Nil forEachEntity_Cons)

lemma forEachEntity_in:
  assumes "\<And>e. f (f e) = f e" and "a \<in> set as"
  shows "forEachEntity f as h a = f (h a)"
  using assms(2)
proof (induction as arbitrary: h)
  case Nil
  then show ?case by simp
next
  case (Cons x xs)
  show ?case
  proof (cases "a \<in> set xs")
    case True
    then have "forEachEntity f xs (h(x := f (h x))) a = f ((h(x := f (h x))) a)"
      by (rule Cons.IH)
    also have "\<dots> = f (h a)" by (simp add: assms(1))
    finally show ?thesis by (simp only: forEachEntity_Cons)
  next
    case False
    with Cons.prems have "a = x" by simp
    with False show ?thesis
      by (simp add: forEachEntity_Cons forEachEntity_notin)
  qed
qed

lemma forEachEntity_apply:
  "(\<And>e. f (f e) = f e) \<Longrightarrow> forEachEntity f as h a = (if a \<in> set as then f (h a) else h a)"
  by (simp add: forEachEntity_in forEachEntity_notin)

lemma setObjectsVisible_apply:
  "setObjectsVisible as b h a = (if a \<in> set as then (h a)\<lparr>visible := b\<rparr> else h a)"
  unfolding setObjectsVisible_def
  by (rule forEachEntity_apply [of "\<lambda>e. e\<lparr>visible := b\<rparr>"]) simp

lemma setObjectsColorized_apply:
  "setObjectsColorized as c h a = (if a \<in> set as then (h a)\<lparr>colorize := c\<rparr> else h a)"
  unfolding setObjectsColorized_def
  by (rule forEachEntity_apply [of "\<lambda>e. e\<lparr>colorize := c\<rparr>"]) simp

lemma setObjectsSelected_apply:
  "setObjectsSelected as b h a = (if a \<in> set as then (h a)\<lparr>selected := b\<rparr> else h a)"
  unfolding setObjectsSelected_def
  by (rule forEachEntity_apply [of "\<lambda>e. e\<lparr>selected := b\<rparr>"]) simp

lemma setObjectsHighlighted_apply:
  "setObjectsHighlighted as b h a = (if a \<in> set as then (h a)\<lparr>highlighted := b\<rparr> else h a)"
  unfolding setObjectsHighlighted_def
  by (rule forEachEntity_apply [of "\<lambda>e. e\<lparr>highlighted := b\<rparr>"]) simp

lemma forEach_setEntityVisible:
  "forEachEntity (setEntityVisible b) as h a =
     (if a \<in> set as then setEntityVisible b (h a) else h a)"
  by (rule forEachEntity_apply [of "setEntityVisible b"]) (simp add: setEntityVisible_def)

lemma forEach_colorizeDirect:
  "forEachEntity colorizeDirect as h a = (if a \<in> set as then colorizeDirect (h a) else h a)"
  by (rule forEachEntity_apply [of colorizeDirect]) (simp add: colorizeDirect_def)

subsection \<open>Visibility passes\<close>

lemma applyVisibility_visible:
  "visible (applyVisibility sc m as b h a) =
     (if a \<in> set as \<and> canSetVisible sc m (h a) then b else visible (h a))"
  by (simp add: applyVisibility_def Let_def setObjectsVisible_apply
        forEach_setEntityVisible setEntityVisible_def canSetVisible_def)

lemma applyVisibility_caps:
  "canSetVisible sc m (applyVisibility sc m as b h a) = canSetVisible sc m (h a)"
  by (simp add: applyVisibility_def Let_def setObjectsVisible_apply canSetVisible_def
        forEach_setEntityVisible setEntityVisible_def)

lemma applyVisibility_ent_id:
  "ent_id (applyVisibility sc m as b h a) = ent_id (h a)"
  by (simp add: applyVisibility_def Let_def setObjectsVisible_apply
        forEach_setEntityVisible setEntityVisible_def)

lemma retintShown_visible: "visible (retintShown sc as h a) = visible (h a)"
  by (simp add: retintShown_def setObjectsColorized_apply
        forEach_colorizeDirect colorizeDirect_def)

lemma isolate_visible:
  assumes "viewerRef S = Some sc" and "modelRef S = Some m"
      and "a \<in> set (allObjects sc)" and "canSetVisible sc m (heap S a)"
  shows "visible (heap (isolateElements (Some ids) S) a)
           \<longleftrightarrow> a \<in> set (collectEntities (lookupEntityForIsolate sc m) ids)"
proof -
  have ne: "allObjects sc \<noteq> []" using assms(3) by auto
  show ?thesis
    using assms ne
    by (auto simp: isolateElements_def Let_def retintShown_visible applyVisibility_visible
          applyVisibility_caps)
qed


text \<open>
  Claim C8, as amended. With a list of ids, \<open>isolateElements\<close> looks every id up under
  the composite key only: an id without that key adds nothing to the shown set, also when
  the lookups of \<open>selectElements\<close>, \<open>hideElements\<close> and \<open>showElements\<close> find its object
  under the bare key or under a key that ends in \<open>#id\<close>. A live object that no id of
  the list reaches through a composite key is not in the shown set; it is invisible
  after the pass when some visibility strategy reaches it.
\<close>

theorem isolate_composite_key_only:
  assumes "viewerRef S = Some sc" and "modelRef S = Some m"
  shows "(sceneObject sc (compositeKey m i) = None
            \<longrightarrow> collectEntities (lookupEntityForIsolate sc m) [i] = [])
       \<and> (sceneObject sc (compositeKey m i) = None \<and> sceneObject sc i = Some a
            \<longrightarrow> lookupEntity sc m i = Some a \<and> lookupEntityForShow sc m i = Some a)
       \<and> (sceneObject sc (compositeKey m i) = None \<and> sceneObject sc i = None
          \<and> find (\<lambda>key. endsWith key (''#'' @ i)) (map fst (objects sc)) = Some k
          \<and> sceneObject sc k = Some a
            \<longrightarrow> lookupEntity sc m i = Some a \<and> lookupEntityForShow sc m i = Some a)
       \<and> (a \<in> set (allObjects sc)
          \<and> (\<forall>j \<in> set ids. sceneObject sc (compositeKey m j) \<noteq> Some a)
            \<longrightarrow> a \<notin> set (collectEntities (lookupEntityForIsolate sc m) ids)
              \<and> (canSetVisible sc m (heap S a)
                   \<longrightarrow> \<not> visible (heap (isolateElements (Some ids) S) a)))"
proof -
  have p1: "sceneObject sc (compositeKey m i) = None
            \<longrightarrow> collectEntities (lookupEntityForIsolate sc m) [i] = []"
    by (simp add: collectEntities_def lookupEntityForIsolate_def)
  have p2: "sceneObject sc (compositeKey m i) = None \<and> sceneObject sc i = Some a
            \<longrightarrow> lookupEntity sc m i = Some a \<and> lookupEntityForShow sc m i = Some a"
    by (simp add: lookupEntity_def lookupEntityForShow_def)
  have p2': "lookupEntity sc m i = Some a \<and> lookupEntityForShow sc m i = Some a"
    if h: "sceneObject sc (compositeKey m i) = None" "sceneObject sc i = None"
          "find (\<lambda>key. endsWith key (''#'' @ i)) (map fst (objects sc)) = Some k"
          "sceneObject sc k = Some a"
  proof -
    have "lookupEntity sc m i = Some a"
      using lookupEntity_suffix [OF h(1,2)] h(3,4) by simp
    then show ?thesis by (simp add: lookupEntityForShow_def)
  qed
  have p3: "a \<notin> set (collectEntities (lookupEntityForIsolate sc m) ids)
              \<and> (canSetVisible sc m (heap S a)
                   \<longrightarrow> \<not> visible (heap (isolateElements (Some ids) S) a))"
    if h: "a \<in> set (allObjects sc)"
          "\<forall>j \<in> set ids. sceneObject sc (compositeKey m j) \<noteq> Some a"
  proof -
    have n: "a \<notin> set (collectEntities (lookupEntityForIsolate sc m) ids)"
      using h(2) by (auto simp: collectEntities_set lookupEntityForIsolate_def)
    with h(1) assms show ?thesis by (simp add: isolate_visible)
  qed
  from p1 p2 p2' p3 show ?thesis by blast
qed

text \<open>
  Isolating E1, E2 and E3 on the model with mixed keys shows the one object under a
  composite key of the model; the other two are found by the lookup of
  \<open>selectElements\<close> and are invisible afterwards.
\<close>

theorem isolate_composite_key_only_witness:
  "lookupEntity mixedKeyScene (modelOf ''m1'') ''E1'' = Some 0
   \<and> lookupEntity mixedKeyScene (modelOf ''m1'') ''E3'' = Some 2
   \<and> collectEntities (lookupEntityForIsolate mixedKeyScene (modelOf ''m1''))
        [''E1'', ''E2'', ''E3''] = [1]
   \<and> \<not> visible (heap (isolateElements (Some [''E1'', ''E2'', ''E3'']) mixedKeyState) 0)
   \<and> \<not> visible (heap (isolateElements (Some [''E1'', ''E2'', ''E3'']) mixedKeyState) 2)"
  using isolate_composite_key_only [where S = mixedKeyState and sc = mixedKeyScene
          and m = "modelOf ''m1''" and i = "''E1''" and a = 0 and k = "''E1''"
          and ids = "[''E1'', ''E2'', ''E3'']"]
        isolate_composite_key_only [where S = mixedKeyState and sc = mixedKeyScene
          and m = "modelOf ''m1''" and i = "''E3''" and a = 2 and k = "''m2#E3''"
          and ids = "[''E1'', ''E2'', ''E3'']"]
  by (simp add: mixedKeyState_def mixedKeyScene_def lookup_defs canSetVisible_def
        xeokitEntity_def lookupEntityForIsolate_def allObjects_def)

text \<open>
  On the build without any visibility strategy the object under the bare key E1 is
  found by the lookup of \<open>selectElements\<close>, is not in the shown set of
  \<open>isolateElements\<close>, and is visible after the isolate pass, which could not hide it.
\<close>

theorem isolate_inert_counterexample:
  "lookupEntity inertScene (modelOf ''m1'') ''E1'' = Some 0
   \<and> collectEntities (lookupEntityForIsolate inertScene (modelOf ''m1'')) [''E1''] = []
   \<and> visible (heap (isolateElements (Some [''E1'']) inertState) 0)"
  by (simp add: inertState_def inertScene_def inertEntity_def mixedKeyScene_def lookup_defs
        lookupEntity_def xeokitEntity_def lookupEntityForIsolate_def allObjects_def
        isolateElements_def applyVisibility_def Let_def forEach_setEntityVisible
        setEntityVisible_def)

subsection \<open>The colour map under visibility operations\<close>

text \<open>
  Claim C10. \<open>hideElements\<close> and \<open>showElements\<close> leave the map of original colours as
  it was, and what they do does not depend on it: running them on a state with another
  map gives the same result with that map.
\<close>

theorem visibility_ops_keep_ledger:
  "originalColors (hideElements ids S) = originalColors S
   \<and> originalColors (showElements ids S) = originalColors S
   \<and> hideElements ids (S\<lparr>originalColors := L\<rparr>) = (hideElements ids S)\<lparr>originalColors := L\<rparr>
   \<and> showElements ids (S\<lparr>originalColors := L\<rparr>) = (showElements ids S)\<lparr>originalColors := L\<rparr>"
  by (simp add: hideElements_def showElements_def Let_def split: option.splits)

theorem visibility_ops_keep_ledger_witness:
  "originalColors (hideElements [''E1''] recordedState) = [Some ''E1'' \<mapsto> CNull]
   \<and> originalColors (showElements [''E1''] recordedState) = [Some ''E1'' \<mapsto> CNull]"
proof -
  have a: "originalColors recordedState = [Some ''E1'' \<mapsto> CNull]"
    by (simp add: recordedState_def)
  have "originalColors (hideElements [''E1''] recordedState) = originalColors recordedState
        \<and> originalColors (showElements [''E1''] recordedState) = originalColors recordedState"
    using visibility_ops_keep_ledger [of "[''E1'']" recordedState] by blast
  then show ?thesis by (simp only: a)
qed


subsection \<open>Capturing original colours\<close>

text \<open>
  The two highlight checks at the moment of the capture: a probed colour that is an
  array or a \<open>Float32Array\<close> holding the highlight colour is stored as \<open>null\<close>, and a
  value the checks recognise as an array is never stored while it holds the highlight
  colour.
\<close>

lemma colorToSave_array_not_highlight:
  "isArray h c \<or> isFloat32Array h c \<Longrightarrow> \<not> isHighlight h (colorToSave h c)"
  by (auto simp: isHighlight_def colorToSave_def components_def isBlueColor_Nil)

lemma capture_highlight_as_null:
  assumes "isArray h (probeColor a (h a)) \<or> isFloat32Array h (probeColor a (h a))"
      and "isHighlight h (probeColor a (h a))" and "L (entityKey (h a)) = None"
  shows "captureOriginal h L a (entityKey (h a)) = Some CNull"
  using assms
  by (auto simp: captureOriginal_def Let_def colorToSave_def getEntityColor_def
        isHighlight_def dest: isBlueColor_length)

lemmas painted_defs =
  selectElements_def paintedState_def paintedEntity_def Let_def collectEntities_def
  lookupEntity_def lookup_defs clearPreviousSelection_def highlightSelection_def
  captureOriginal_def setObjectsSelected_apply entityKey_def getEntityColor_def
  probeColor_def colorToSave_def blue_evals isArray_def isFloat32Array_def
  components_def applyHighlightColor_def materialColorizeTruthy_def colorSetRGB_def
  colorSet_def

lemma painted_before:
  "getEntityColor (heap paintedState) 0 = CLive 0
   \<and> components (heap paintedState) (CLive 0) = [1, 0, 0]
   \<and> \<not> isHighlight (heap paintedState) (CLive 0)"
  by (simp add: painted_defs isHighlight_def)

text \<open>
  Claim C2. The object A has \<open>material.color\<close>, a plain array holding red, as its only
  colour member, and the scene has no \<open>setObjectsColorized\<close>. Selecting A probes the
  array, finds it is not the highlight colour, and stores the array itself; the tint
  then writes the highlight colour into that array. After the call the record of A is
  the array, and the array holds the highlight colour, where the claim has no stored
  original equal to it.
\<close>

theorem capture_stores_live_color:
  "originalColors (selectElements [''A''] paintedState) = [Some ''m1#A'' \<mapsto> CLive 0]
   \<and> components (heap (selectElements [''A''] paintedState)) (CLive 0) = blueColor
   \<and> isHighlight (heap (selectElements [''A''] paintedState)) (CLive 0)"
  by (simp add: painted_defs isHighlight_def)

subsection \<open>The colour map across selections\<close>

lemma entityKey_upd [simp]:
  "entityKey (e\<lparr>colorize := c\<rparr>) = entityKey e"
  "entityKey (e\<lparr>material_colorize := c\<rparr>) = entityKey e"
  "entityKey (e\<lparr>color_comps := xs\<rparr>) = entityKey e"
  "entityKey (e\<lparr>selected := b\<rparr>) = entityKey e"
  "entityKey (e\<lparr>highlighted := b\<rparr>) = entityKey e"
  by (simp_all add: entityKey_def)

lemma entityKey_restoreViaColorize [simp]: "entityKey (restoreViaColorize c e) = entityKey e"
  by (simp add: restoreViaColorize_def)

lemma entityKey_restoreViaMaterial [simp]:
  "entityKey (restoreViaMaterial h oc c e) = entityKey e"
  by (simp add: restoreViaMaterial_def)

lemma entityKey_restore: "entityKey (restoreEntityColor sc h c e) = entityKey e"
  by (simp add: restoreEntityColor_def Let_def)

lemma entityKey_tint: "entityKey (applyHighlightColor sc e) = entityKey e"
  by (simp add: applyHighlightColor_def)

lemma entityKey_setObjectsSelected: "entityKey (setObjectsSelected as b h a) = entityKey (h a)"
  by (simp add: setObjectsSelected_apply entityKey_def)

lemma entityKey_setObjectsColorized: "entityKey (setObjectsColorized as c h a) = entityKey (h a)"
  by (simp add: setObjectsColorized_apply entityKey_def)


lemma restore_fold_ledger:
  "(\<And>x. entityKey (h x) = K x) \<Longrightarrow>
   snd (fold (restorePrevious sc) as (h, L)) k = (if k \<in> K ` set as then None else L k)"
proof (induction as arbitrary: h L)
  case Nil
  show ?case by simp
next
  case (Cons a as)
  have keys: "\<And>c x. entityKey ((h(a := restoreEntityColor sc h c (h a))) x) = K x"
    using Cons.prems by (simp add: entityKey_restore)
  show ?case
  proof (cases "L (entityKey (h a))")
    case None
    have "snd (fold (restorePrevious sc) as (h(a := restoreEntityColor sc h CNull (h a)), L)) k
            = (if k \<in> K ` set as then None else L k)"
      by (rule Cons.IH) (rule keys)
    with None Cons.prems [of a] show ?thesis by auto
  next
    case (Some oc)
    have "snd (fold (restorePrevious sc) as
                 (h(a := restoreEntityColor sc h oc (h a)), L(entityKey (h a) := None))) k
            = (if k \<in> K ` set as then None else (L(entityKey (h a) := None)) k)"
      by (rule Cons.IH) (rule keys)
    with Some Cons.prems [of a] show ?thesis by auto
  qed
qed

lemma select_fold_keys:
  "entityKey (fst (fold (selectStep sc) as (h, L)) x) = entityKey (h x)"
proof (induction as arbitrary: h L)
  case Nil
  show ?case by simp
next
  case (Cons a as)
  show ?case by (simp add: Cons.IH entityKey_tint)
qed

lemma dom_captureOriginal: "dom (captureOriginal h L a) = insert (entityKey (h a)) (dom L)"
  by (auto simp: captureOriginal_def Let_def)

lemma select_fold_dom:
  "(\<And>x. entityKey (h x) = K x) \<Longrightarrow>
   dom (snd (fold (selectStep sc) as (h, L))) = dom L \<union> K ` set as"
proof (induction as arbitrary: h L)
  case Nil
  show ?case by simp
next
  case (Cons a as)
  have keys: "\<And>x. entityKey ((h(a := applyHighlightColor sc (h a))) x) = K x"
    using Cons.prems by (simp add: entityKey_tint)
  have "dom (snd (fold (selectStep sc) as
                    (h(a := applyHighlightColor sc (h a)), captureOriginal h L a)))
          = dom (captureOriginal h L a) \<union> K ` set as"
    by (rule Cons.IH) (rule keys)
  then show ?case using Cons.prems [of a] by (auto simp: dom_captureOriginal)
qed


lemma clear_ledger:
  "snd (clearPreviousSelection sc prev (h, L)) k =
     (if k \<in> (\<lambda>a. entityKey (h a)) ` set prev then None else L k)"
proof -
  have "snd (fold (restorePrevious sc) prev (setObjectsSelected prev False h, L)) k
          = (if k \<in> (\<lambda>a. entityKey (h a)) ` set prev then None else L k)"
    by (rule restore_fold_ledger) (rule entityKey_setObjectsSelected)
  then show ?thesis
    by (auto simp: clearPreviousSelection_def)
qed

lemma highlight_keys: "entityKey (fst (highlightSelection sc ents hL) x) = entityKey (fst hL x)"
  by (simp add: highlightSelection_def Let_def entityKey_setObjectsColorized select_fold_keys
        entityKey_setObjectsSelected)

lemma highlight_dom:
  "dom (snd (highlightSelection sc ents hL))
     = dom (snd hL) \<union> (\<lambda>a. entityKey (fst hL a)) ` set ents"
proof -
  have "dom (snd (fold (selectStep sc) ents (setObjectsSelected ents True (fst hL), snd hL)))
          = dom (snd hL) \<union> (\<lambda>a. entityKey (fst hL a)) ` set ents"
    by (rule select_fold_dom) (rule entityKey_setObjectsSelected)
  then show ?thesis
    by (simp add: highlightSelection_def Let_def)
qed

lemma clear_covered_empty:
  assumes "dom L \<subseteq> (\<lambda>a. entityKey (h a)) ` set prev"
  shows "snd (clearPreviousSelection sc prev (h, L)) = Map.empty"
proof
  fix k
  show "snd (clearPreviousSelection sc prev (h, L)) k = None"
    using assms by (auto simp: clear_ledger)
qed

lemma selectElements_covered:
  assumes "ledgerCovered S"
  shows "ledgerCovered (selectElements ids S)"
proof (cases "viewerRef S")
  case None
  with assms show ?thesis by (simp add: selectElements_def)
next
  case (Some sc)
  show ?thesis
  proof (cases "modelRef S")
    case None
    with Some assms show ?thesis by (simp add: selectElements_def)
  next
    case m: (Some m)
    let ?r = "clearPreviousSelection sc (previouslySelectedEntities S)
                (heap S, originalColors S)"
    let ?ents = "collectEntities (lookupEntity sc m) ids"
    have e: "snd ?r = Map.empty"
      using assms by (intro clear_covered_empty) (simp add: ledgerCovered_def)
    show ?thesis
    proof (cases "length ?ents > 0")
      case True
      then have S': "selectElements ids S =
        S\<lparr>heap := fst (highlightSelection sc ?ents ?r),
           originalColors := snd (highlightSelection sc ?ents ?r),
           previouslySelectedEntities := ?ents\<rparr>"
        using Some m by (simp add: selectElements_def Let_def)
      show ?thesis
        unfolding S' ledgerCovered_def
        by (simp add: highlight_dom highlight_keys e)
    next
      case False
      then have S': "selectElements ids S =
        S\<lparr>heap := fst ?r, originalColors := snd ?r, previouslySelectedEntities := []\<rparr>"
        using Some m by (simp add: selectElements_def Let_def)
      show ?thesis unfolding S' ledgerCovered_def by (simp add: e)
    qed
  qed
qed

lemma selectElements_empty_clears:
  assumes "ledgerCovered S" and "viewerRef S = Some sc" and "modelRef S = Some m"
  shows "originalColors (selectElements [] S) = Map.empty"
proof -
  have "snd (clearPreviousSelection sc (previouslySelectedEntities S)
               (heap S, originalColors S)) = Map.empty"
    using assms(1) by (intro clear_covered_empty) (simp add: ledgerCovered_def)
  then show ?thesis
    using assms(2,3) by (simp add: selectElements_def Let_def collectEntities_def)
qed

lemma selectElements_refs:
  "viewerRef (selectElements ids S) = viewerRef S
   \<and> modelRef (selectElements ids S) = modelRef S"
  by (simp add: selectElements_def Let_def split: option.splits)

lemma selectElements_not_ready:
  "viewerRef S = None \<or> modelRef S = None \<Longrightarrow> selectElements ids S = S"
  by (auto simp: selectElements_def split: option.splits)

text \<open>
  Claim C4. Starting with an empty colour map, select, select something else, deselect
  all: the map is empty again. The reason is an invariant that every
  \<open>selectElements\<close> keeps, that each record belongs to an entity of the previous
  selection; under it, \<open>selectElements([])\<close> on a loaded viewer removes every record.
\<close>

theorem selection_ledger_no_leak:
  "(originalColors S = Map.empty \<longrightarrow>
      originalColors (selectElements [] (selectElements ids2 (selectElements ids1 S)))
        = Map.empty)
   \<and> (ledgerCovered S \<longrightarrow> ledgerCovered (selectElements ids1 S))
   \<and> (ledgerCovered S \<and> viewerRef S \<noteq> None \<and> modelRef S \<noteq> None
        \<longrightarrow> originalColors (selectElements [] S) = Map.empty)"
proof -
  have p1: "originalColors (selectElements [] (selectElements ids2 (selectElements ids1 S)))
              = Map.empty"
    if e: "originalColors S = Map.empty"
  proof (cases "viewerRef S = None \<or> modelRef S = None")
    case True
    then show ?thesis by (simp add: selectElements_not_ready e)
  next
    case False
    then obtain sc m where r: "viewerRef S = Some sc" "modelRef S = Some m" by auto
    let ?S2 = "selectElements ids2 (selectElements ids1 S)"
    have "ledgerCovered S" using e by (simp add: ledgerCovered_def)
    then have c: "ledgerCovered ?S2" by (intro selectElements_covered)
    have "viewerRef ?S2 = Some sc" "modelRef ?S2 = Some m"
      using r by (simp_all add: selectElements_refs)
    with c show ?thesis by (rule selectElements_empty_clears)
  qed
  have p3: "originalColors (selectElements [] S) = Map.empty"
    if "ledgerCovered S \<and> viewerRef S \<noteq> None \<and> modelRef S \<noteq> None"
    using that selectElements_empty_clears [of S] by auto
  from p1 p3 selectElements_covered [of S ids1] show ?thesis by blast
qed

lemma abcd_select_lookups:
  "lookupEntity abcdScene (modelOf ''m1'') ''A'' = Some 0"
  "lookupEntity abcdScene (modelOf ''m1'') ''B'' = Some 1"
  by (simp_all add: lookupEntity_def abcdScene_def lookup_defs)

lemma abcd_select_B:
  "originalColors (selectElements [''B''] abcdState) = [Some ''m1#B'' \<mapsto> CArr [1, 0, 0]]"
  by (simp add: selectElements_def abcdState_def Let_def collectEntities_def
        abcd_select_lookups clearPreviousSelection_def highlightSelection_def
        captureOriginal_def setObjectsSelected_apply abcdHeap_def xeokitEntity_def
        entityKey_def getEntityColor_def probeColor_def colorToSave_def blue_evals
        isArray_def isFloat32Array_def components_def)

text \<open>Selecting B records its red colour; select B, select A, deselect all ends empty.\<close>

theorem selection_ledger_no_leak_witness:
  "originalColors (selectElements [''B''] abcdState) = [Some ''m1#B'' \<mapsto> CArr [1, 0, 0]]
   \<and> originalColors (selectElements [] (selectElements [''A''] (selectElements [''B''] abcdState)))
       = Map.empty"
proof -
  have e: "originalColors abcdState = Map.empty" by (simp add: abcdState_def)
  from selection_ledger_no_leak [of abcdState "[''A'']" "[''B'']"] e
  have "originalColors (selectElements [] (selectElements [''A''] (selectElements [''B''] abcdState)))
       = Map.empty"
    by blast
  with abcd_select_B show ?thesis by blast
qed

subsection \<open>Isolation and hiding\<close>

lemma canSetVisible_visible_upd [simp]:
  "canSetVisible sc m (e\<lparr>visible := b\<rparr>) = canSetVisible sc m e"
  by (simp add: canSetVisible_def)

lemma canSetVisible_colorize_upd [simp]:
  "canSetVisible sc m (e\<lparr>colorize := c\<rparr>) = canSetVisible sc m e"
  by (simp add: canSetVisible_def)

lemma isolate_none_visible:
  assumes "viewerRef S = Some sc" and "modelRef S = Some m"
      and "a \<in> set (allObjects sc)" and "canSetVisible sc m (heap S a)"
  shows "visible (heap (isolateElements None S) a)"
  using assms
  by (simp add: isolateElements_def Let_def applyVisibility_visible setObjectsColorized_apply
        setObjectsHighlighted_apply)

text \<open>
  While the isolated set is not \<open>null\<close> the visibility effect does nothing, whatever the
  hidden ids are, and the commit that sets the isolated set runs \<open>isolateElements\<close>:
  afterwards a live object that some visibility strategy reaches is visible exactly when
  an id of the set resolves to it.
\<close>

lemma isolation_ignores_hidden:
  assumes "viewerRef S = Some sc" and "modelRef S = Some m"
      and "propIsolatedIds P = Some ids"
  shows "visibilityEffect (propHiddenIds P) (propIsolatedIds P) S = Inr S
       \<and> commitEffects False hc True P S = Inr (isolateElements (Some ids) S)
       \<and> (\<forall>a \<in> set (allObjects sc). canSetVisible sc m (heap S a) \<longrightarrow>
             (visible (heap (isolateElements (Some ids) S) a)
                \<longleftrightarrow> a \<in> set (collectEntities (lookupEntityForIsolate sc m) ids)))"
proof -
  have p1: "visibilityEffect (propHiddenIds P) (propIsolatedIds P) S = Inr S"
    using assms by (simp add: visibilityEffect_def)
  have p2: "commitEffects False hc True P S = Inr (isolateElements (Some ids) S)"
    using assms p1 by (simp add: commitEffects_def isolationEffect_def)
  have p3: "\<forall>a \<in> set (allObjects sc). canSetVisible sc m (heap S a) \<longrightarrow>
                (visible (heap (isolateElements (Some ids) S) a)
                   \<longleftrightarrow> a \<in> set (collectEntities (lookupEntityForIsolate sc m) ids))"
    using assms by (simp add: isolate_visible)
  from p1 p2 p3 show ?thesis by blast
qed



subsection \<open>Selecting the same ids twice\<close>


lemma highlightedAfter_upd [simp]:
  "highlightedAfter (e\<lparr>colorize := c\<rparr>) = highlightedAfter e"
  "highlightedAfter (e\<lparr>selected := b\<rparr>) = highlightedAfter e"
  "highlightedAfter (e\<lparr>highlighted := highlightedAfter e\<rparr>) = highlightedAfter e"
  by (auto simp: highlightedAfter_def)

lemma materialWritable_upd [simp]:
  "materialWritable (e\<lparr>colorize := c\<rparr>) = materialWritable e"
  "materialWritable (e\<lparr>selected := b\<rparr>) = materialWritable e"
  "materialWritable (e\<lparr>highlighted := b\<rparr>) = materialWritable e"
  by (simp_all add: materialWritable_def materialColorizeTruthy_def split: member_kind.splits)

lemma tintReaches_upd [simp]:
  "tintReaches sc (e\<lparr>colorize := c\<rparr>) = tintReaches sc e"
  "tintReaches sc (e\<lparr>selected := b\<rparr>) = tintReaches sc e"
  "tintReaches sc (e\<lparr>highlighted := b\<rparr>) = tintReaches sc e"
  by (simp_all add: tintReaches_def)









lemma materialWritable_restoreViaColorize [simp]:
  "materialWritable (restoreViaColorize c e) = materialWritable e"
  by (simp add: restoreViaColorize_def)


























end
